theory Spec2Isabelle
  imports Main
begin

section \<open>Python values and the module protocol\<close>

text \<open>
  The three modules are Ansible modules written in Python. A module invocation ends in
  one of three ways: it returns its \<open>results\<close> dictionary, it calls \<open>self.fail\<close>
  (which never returns), or an exception leaves \<open>exec_module\<close>. The last two are the
  values of \<open>failure\<close>; a run is a value of \<open>failure + 'a\<close>, with \<open>Inl\<close> the failure.
\<close>

text \<open>
  Playbook values that reach the modules untyped (the entries of the \<open>dict\<close>
  parameters): \<open>None\<close>, booleans, integers, strings, lists and dictionaries. A
  dictionary is an association list in insertion order, without repeated keys.
\<close>

datatype pyval =
    PNone
  | PBool bool
  | PInt int
  | PStr string
  | PList "pyval list"
  | PDict "(string \<times> pyval) list"

type_synonym pydict = "(string \<times> pyval) list"

text \<open>
  \<open>Fail_json\<close> is \<open>self.fail(msg=...)\<close> with a string; \<open>Fail_json_missing\<close> is
  \<open>self.fail\<close> whose message is, or ends with, the cache's list of unresolved
  (type, name) pairs; \<open>SMCException\<close> is the client library's exception while it
  propagates (at the end of a run: uncaught); \<open>Python_error\<close> is a \<open>TypeError\<close> or
  \<open>AttributeError\<close> raised on an ill-typed value.
\<close>

datatype failure =
    Fail_json string
  | Fail_json_missing string "(string \<times> pyval) list"
  | SMCException string
  | Python_error string

text \<open>Truthiness of an optional string parameter: \<open>None\<close> and \<open>''\<close> are false.\<close>

fun str_truthy :: "string option \<Rightarrow> bool" where
  "str_truthy None = False"
| "str_truthy (Some s) = (s \<noteq> [])"

text \<open>\<open>str.split(sep)\<close> for a one-character separator: never returns the empty list.\<close>

fun py_split :: "char \<Rightarrow> string \<Rightarrow> string list" where
  "py_split c [] = [[]]"
| "py_split c (x # xs) =
     (if x = c then [] # py_split c xs
      else (case py_split c xs of
              [] \<Rightarrow> [[x]]
            | t # ts \<Rightarrow> (x # t) # ts))"

text \<open>
  \<open>int(s)\<close> on a string of ASCII characters (the scope of this model; a string with
  other characters is outside it, see \<open>py_ascii\<close>): the whitespace characters tab,
  line feed, vertical tab, form feed, carriage return and space are dropped at both
  ends, one sign is allowed, and the rest is a non-empty run of decimal digits. \<open>None\<close>
  stands for the \<open>ValueError\<close> the call raises.

  Two points depend on the interpreter that runs the module, so they are parameters:
  whether single underscores may separate digits (Python 3.6 and later), and the
  largest number of digits \<open>int\<close> converts (\<open>sys.int_max_str_digits\<close>, 4300 by default
  from CPython 3.11; no limit before). Underscores do not count as digits; leading
  zeros do.
\<close>

record interpreter =
  int_underscores :: bool
  int_max_str_digits :: "nat option"

definition py_ascii :: "string \<Rightarrow> bool" where
  "py_ascii s = list_all (\<lambda>c. (of_char c :: nat) < 128) s"

definition py_isspace :: "char \<Rightarrow> bool" where
  "py_isspace c = (c \<in> set [CHR 0x09, CHR 0x0A, CHR 0x0B, CHR 0x0C, CHR 0x0D, CHR 0x20])"

definition py_strip :: "string \<Rightarrow> string" where
  "py_strip s = rev (dropWhile py_isspace (rev (dropWhile py_isspace s)))"

definition py_isdigit :: "char \<Rightarrow> bool" where
  "py_isdigit c = (48 \<le> (of_char c :: nat) \<and> (of_char c :: nat) \<le> 57)"

definition digits_value :: "string \<Rightarrow> int" where
  "digits_value ds = foldl (\<lambda>a c. 10 * a + (int (of_char c) - 48)) 0 ds"

definition py_int_unsigned :: "interpreter \<Rightarrow> string \<Rightarrow> int option" where
  "py_int_unsigned py body =
     (let groups = (if int_underscores py then py_split CHR ''_'' body else [body]) in
      if list_all (\<lambda>g. g \<noteq> [] \<and> list_all py_isdigit g) groups \<and>
         (case int_max_str_digits py of
            None \<Rightarrow> True
          | Some m \<Rightarrow> length (concat groups) \<le> m)
      then Some (digits_value (concat groups))
      else None)"

definition py_int :: "interpreter \<Rightarrow> string \<Rightarrow> int option" where
  "py_int py s =
     (case py_strip s of
        [] \<Rightarrow> None
      | c # cs \<Rightarrow>
          if c = CHR ''-'' then map_option uminus (py_int_unsigned py cs)
          else if c = CHR ''+'' then py_int_unsigned py cs
          else py_int_unsigned py (c # cs))"

text \<open>
  The slice \<open>xs[lo:hi]\<close>: a negative bound counts from the end, and both bounds are
  clamped to the list; an empty range gives the empty list.
\<close>

definition slice_bound :: "nat \<Rightarrow> int \<Rightarrow> nat" where
  "slice_bound n i = (if i < 0 then nat (max 0 (i + int n)) else min (nat i) n)"

definition py_slice :: "'a list \<Rightarrow> int \<Rightarrow> int \<Rightarrow> 'a list" where
  "py_slice xs lo hi =
     (let l = slice_bound (length xs) lo; h = slice_bound (length xs) hi
      in take (h - l) (drop l xs))"

text \<open>
  \<open>repr\<close> of a string of ASCII characters (Python 3): in single quotes, or in double
  quotes when the string holds a single quote and no double quote; the backslash, the
  quote in use and the control characters are escaped. Then \<open>'%s' % names\<close> for a list
  or a tuple of strings.
\<close>

fun py_join :: "string \<Rightarrow> string list \<Rightarrow> string" where
  "py_join sep [] = []"
| "py_join sep [x] = x"
| "py_join sep (x # y # ys) = x @ sep @ py_join sep (y # ys)"

definition repr_quote :: "string \<Rightarrow> char" where
  "repr_quote s = (if CHR 0x27 \<in> set s \<and> CHR 0x22 \<notin> set s then CHR 0x22 else CHR 0x27)"

definition hex_digit :: "nat \<Rightarrow> char" where
  "hex_digit n = (if n < 10 then char_of (48 + n) else char_of (87 + n))"

definition repr_char :: "char \<Rightarrow> char \<Rightarrow> string" where
  "repr_char q c =
     (if c = CHR 0x5C then [CHR 0x5C, CHR 0x5C]
      else if c = q then [CHR 0x5C, q]
      else if c = CHR 0x0A then [CHR 0x5C, CHR ''n'']
      else if c = CHR 0x0D then [CHR 0x5C, CHR ''r'']
      else if c = CHR 0x09 then [CHR 0x5C, CHR ''t'']
      else if (of_char c :: nat) < 32 \<or> (of_char c :: nat) = 127
      then [CHR 0x5C, CHR ''x'', hex_digit ((of_char c :: nat) div 16),
            hex_digit ((of_char c :: nat) mod 16)]
      else [c])"

definition repr_str :: "string \<Rightarrow> string" where
  "repr_str s = [repr_quote s] @ concat (map (repr_char (repr_quote s)) s) @ [repr_quote s]"

definition repr_str_list :: "string list \<Rightarrow> string" where
  "repr_str_list xs = ''['' @ py_join '', '' (map repr_str xs) @ '']''"

definition repr_str_tuple :: "string list \<Rightarrow> string" where
  "repr_str_tuple xs =
     ''('' @ py_join '', '' (map repr_str xs) @ (if length xs = 1 then '',)'' else '')'')"

text \<open>Decimal digits of a natural number, and \<open>repr\<close> and \<open>str\<close> of a value.\<close>

fun string_of_nat :: "nat \<Rightarrow> string" where
  "string_of_nat n =
     (if n < 10 then [char_of (48 + n)]
      else string_of_nat (n div 10) @ [char_of (48 + n mod 10)])"

fun py_repr :: "pyval \<Rightarrow> string" where
  "py_repr PNone = ''None''"
| "py_repr (PBool b) = (if b then ''True'' else ''False'')"
| "py_repr (PInt i) = (if i < 0 then ''-'' @ string_of_nat (nat (- i)) else string_of_nat (nat i))"
| "py_repr (PStr s) = repr_str s"
| "py_repr (PList xs) = ''['' @ py_join '', '' (map py_repr xs) @ '']''"
| "py_repr (PDict d) =
     ''{'' @ py_join '', '' (map (\<lambda>kv. repr_str (fst kv) @ '': '' @ py_repr (snd kv)) d) @ ''}''"

fun py_str :: "pyval \<Rightarrow> string" where
  "py_str (PStr s) = s"
| "py_str v = py_repr v"

text \<open>Truthiness, as \<open>if v:\<close> and \<open>not v\<close> test it.\<close>

fun py_truthy :: "pyval \<Rightarrow> bool" where
  "py_truthy PNone = False"
| "py_truthy (PBool b) = b"
| "py_truthy (PInt i) = (i \<noteq> 0)"
| "py_truthy (PStr s) = (s \<noteq> [])"
| "py_truthy (PList xs) = (xs \<noteq> [])"
| "py_truthy (PDict d) = (d \<noteq> [])"

text \<open>Dictionary operations: \<open>k in d\<close>, \<open>d.get(k)\<close>, \<open>d.pop(k, None)\<close>, \<open>d[k] = v\<close>.\<close>

definition dict_has :: "pydict \<Rightarrow> string \<Rightarrow> bool" where
  "dict_has d k = (map_of d k \<noteq> None)"

definition dict_get :: "pydict \<Rightarrow> string \<Rightarrow> pyval" where
  "dict_get d k = (case map_of d k of None \<Rightarrow> PNone | Some v \<Rightarrow> v)"

definition dict_pop :: "pydict \<Rightarrow> string \<Rightarrow> pydict" where
  "dict_pop d k = filter (\<lambda>kv. fst kv \<noteq> k) d"

definition dict_set :: "pydict \<Rightarrow> string \<Rightarrow> pyval \<Rightarrow> pydict" where
  "dict_set d k v =
     (if dict_has d k then map (\<lambda>kv. if fst kv = k then (k, v) else kv) d else d @ [(k, v)])"

text \<open>
  \<open>k in v\<close> for a string \<open>k\<close> and an arbitrary value: key membership for a dictionary,
  element membership for a list, substring test for a string, \<open>TypeError\<close> otherwise.
\<close>

fun py_startswith :: "string \<Rightarrow> string \<Rightarrow> bool" where
  "py_startswith s [] = True"
| "py_startswith [] (k # ks) = False"
| "py_startswith (c # cs) (k # ks) = (c = k \<and> py_startswith cs ks)"

fun py_substring :: "string \<Rightarrow> string \<Rightarrow> bool" where
  "py_substring k [] = (k = [])"
| "py_substring k (c # cs) = (py_startswith (c # cs) k \<or> py_substring k cs)"

fun py_contains :: "pyval \<Rightarrow> string \<Rightarrow> failure + bool" where
  "py_contains (PDict d) k = Inr (dict_has d k)"
| "py_contains (PList xs) k = Inr (PStr k \<in> set xs)"
| "py_contains (PStr s) k = Inr (py_substring k s)"
| "py_contains v k = Inl (Python_error ''TypeError: argument is not iterable'')"

text \<open>The sequence a \<open>for\<close> loop runs over.\<close>

fun py_iter :: "pyval \<Rightarrow> failure + pyval list" where
  "py_iter (PList xs) = Inr xs"
| "py_iter (PStr s) = Inr (map (\<lambda>c. PStr [c]) s)"
| "py_iter (PDict d) = Inr (map (\<lambda>kv. PStr (fst kv)) d)"
| "py_iter v = Inl (Python_error ''TypeError: object is not iterable'')"

section \<open>The NAT rule query (firewall_nat_rule_facts.py)\<close>

text \<open>
  What the module reads from the SMC server: the policies that \<open>search_by_type\<close>
  finds for a filter (or the message of the \<open>SMCException\<close> it raises), and per policy
  its ordered NAT rules and the library's \<open>search_rule\<close>. Every call to the server is
  recorded, in order, as a \<open>lookup\<close>. Beside the server, a run depends on the Python
  interpreter it runs on (\<open>python\<close>), through \<open>int\<close>.
\<close>

record nat_rule =
  rule_name :: string
  rule_typeof :: string

record fw_policy =
  policy_name :: string
  fw_ipv4_nat_rules :: "nat_rule list"
  search_rule :: "string \<Rightarrow> nat_rule list"

record policy_server =
  search_FirewallPolicy :: "string \<Rightarrow> string + fw_policy list"
  python :: interpreter

datatype lookup =
    Search_by_type string string
  | Search_by_context string
  | Policy_search_rule string string
  | Policy_fw_ipv4_nat_rules string

text \<open>
  The module's parameters. \<open>as_yaml\<close> is only tested for truth, so it is a \<open>bool\<close>
  (\<open>None\<close> is \<open>False\<close>).
\<close>

record nat_params =
  nat_filter :: string
  nat_expand :: "string list"
  nat_search :: "string option"
  nat_rule_range :: "string option"
  nat_as_yaml :: bool

text \<open>
  One returned rule: either the compact dictionary with keys \<open>name\<close>, \<open>type\<close> and,
  when the third component is \<open>Some\<close>, \<open>pos\<close>; or the record \<open>to_yaml(rule, expand)\<close>,
  which is kept symbolic (it has no \<open>pos\<close> key).
\<close>

datatype rule_out =
    Rule_entry string string "nat option"
  | Rule_yaml nat_rule "string list"

record firewall_rule =
  fr_policy :: string
  fr_rules :: "rule_out list"

definition expands :: "string list" where
  "expands = [''sources'', ''destinations'', ''services'']"

definition nat_rule_type :: string where
  "nat_rule_type = ''fw_ipv4_nat_rule''"

text \<open>The loop over \<open>self.expand\<close>: the first entry outside \<open>expands\<close> fails the module.\<close>

fun nat_check_expand :: "string list \<Rightarrow> failure option" where
  "nat_check_expand [] = None"
| "nat_check_expand (attr # rest) =
     (if attr \<notin> set expands
      then Some (Fail_json (''Invalid expandable attribute: '' @ attr @
                  '' provided. Valid options are: '' @ repr_str_tuple expands))
      else nat_check_expand rest)"

text \<open>
  \<open>start, end = map(int, self.rule_range.split('-'))\<close>: any token that is not an integer,
  and any number of tokens other than two, raises \<open>ValueError\<close> (here \<open>None\<close>).
\<close>

definition parse_rule_range :: "interpreter \<Rightarrow> string \<Rightarrow> (int \<times> int) option" where
  "parse_rule_range py r =
     (case map (py_int py) (py_split CHR ''-'' r) of
        [Some start, Some stop] \<Rightarrow> Some (start, stop)
      | _ \<Rightarrow> None)"

definition rule_range_error :: "string \<Rightarrow> string" where
  "rule_range_error r =
     ''Value of rule range was invalid. Rule ranges must be a string with numeric only values, got: '' @ r"

text \<open>The selection of rules: by search, by range, or the full list.\<close>

definition select_rules ::
    "interpreter \<Rightarrow> nat_params \<Rightarrow> fw_policy \<Rightarrow> lookup list \<times> (failure + nat_rule list)" where
  "select_rules py p policy =
     (if str_truthy (nat_search p)
      then ([Policy_search_rule (policy_name policy) (the (nat_search p))],
            Inr (search_rule policy (the (nat_search p))))
      else if str_truthy (nat_rule_range p)
      then (case parse_rule_range py (the (nat_rule_range p)) of
              Some (start, stop) \<Rightarrow>
                ([Policy_fw_ipv4_nat_rules (policy_name policy)],
                 Inr (py_slice (fw_ipv4_nat_rules policy) (start - 1) stop))
            | None \<Rightarrow> ([], Inl (Fail_json (rule_range_error (the (nat_rule_range p))))))
      else ([Policy_fw_ipv4_nat_rules (policy_name policy)], Inr (fw_ipv4_nat_rules policy)))"

definition render_rules :: "nat_params \<Rightarrow> nat_rule list \<Rightarrow> rule_out list" where
  "render_rules p result =
     (if nat_as_yaml p
      then map (\<lambda>rule. Rule_yaml rule (nat_expand p))
             (filter (\<lambda>rule. rule_typeof rule = nat_rule_type) result)
      else if str_truthy (nat_search p) \<or> str_truthy (nat_rule_range p)
      then map (\<lambda>rule. Rule_entry (rule_name rule) (rule_typeof rule) None)
             (filter (\<lambda>rule. rule_typeof rule = nat_rule_type) result)
      else map (\<lambda>(num, rule). Rule_entry (rule_name rule) (rule_typeof rule) (Some num))
             (zip [1 ..< Suc (length result)] result))"

definition FirewallNATRuleFacts_exec_module ::
    "policy_server \<Rightarrow> nat_params \<Rightarrow> lookup list \<times> (failure + firewall_rule list)" where
  "FirewallNATRuleFacts_exec_module smc p =
     (case nat_check_expand (nat_expand p) of
        Some f \<Rightarrow> ([], Inl f)
      | None \<Rightarrow>
         (case search_FirewallPolicy smc (nat_filter p) of
            Inl err \<Rightarrow> ([Search_by_type ''fw_policy'' (nat_filter p)], Inl (Fail_json err))
          | Inr found \<Rightarrow>
              if found = []
              then ([Search_by_type ''fw_policy'' (nat_filter p)],
                    Inl (Fail_json (''Policy specified could not be found: '' @ nat_filter p)))
              else if length found > 1
              then ([Search_by_type ''fw_policy'' (nat_filter p)],
                    Inl (Fail_json (''Multiple policies found with the given search filter: '' @
                           repr_str_list (map policy_name found) @
                           '' Use exact_match or case_sensitive to narrow the search'')))
              else
                (let policy = last found in
                 case select_rules (python smc) p policy of
                   (calls, Inl f) \<Rightarrow>
                     (Search_by_type ''fw_policy'' (nat_filter p) # calls, Inl f)
                 | (calls, Inr result) \<Rightarrow>
                     (Search_by_type ''fw_policy'' (nat_filter p) # calls,
                      Inr [\<lparr>fr_policy = policy_name policy,
                            fr_rules = render_rules p result\<rparr>]))))"

text \<open>
  The range as the specification words it: the rules in the 1-based inclusive positions
  \<open>s\<close> through \<open>e\<close> of the ordered list (positions that the list does not have
  select nothing).
\<close>

definition rules_in_positions :: "'a list \<Rightarrow> nat \<Rightarrow> nat \<Rightarrow> 'a list" where
  "rules_in_positions xs s e =
     map (\<lambda>i. xs ! (i - 1)) (filter (\<lambda>i. 1 \<le> i \<and> i \<le> length xs) [s ..< Suc e])"

text \<open>Whether a returned rule carries the \<open>pos\<close> key.\<close>

fun has_pos :: "rule_out \<Rightarrow> bool" where
  "has_pos (Rule_entry n t pos) = (pos \<noteq> None)"
| "has_pos (Rule_yaml rule ex) = False"

subsection \<open>Example data\<close>

text \<open>A policy with three NAT rules, and the queries used in the examples below.\<close>

definition policy3 :: fw_policy where
  "policy3 = \<lparr>policy_name = ''TestPolicy'',
     fw_ipv4_nat_rules =
       [\<lparr>rule_name = ''R1'', rule_typeof = ''fw_ipv4_nat_rule''\<rparr>,
        \<lparr>rule_name = ''R2'', rule_typeof = ''fw_ipv4_nat_rule''\<rparr>,
        \<lparr>rule_name = ''R3'', rule_typeof = ''fw_ipv4_nat_rule''\<rparr>],
     search_rule = (\<lambda>s. [])\<rparr>"

definition cpython :: interpreter where
  "cpython = \<lparr>int_underscores = True, int_max_str_digits = Some 4300\<rparr>"

definition server3 :: policy_server where
  "server3 =
     \<lparr>search_FirewallPolicy = (\<lambda>f. if f = ''TestPolicy'' then Inr [policy3] else Inr []),
      python = cpython\<rparr>"

definition range_query :: "string \<Rightarrow> nat_params" where
  "range_query r = \<lparr>nat_filter = ''TestPolicy'', nat_expand = [], nat_search = None,
      nat_rule_range = Some r, nat_as_yaml = False\<rparr>"

definition full_query :: nat_params where
  "full_query = \<lparr>nat_filter = ''TestPolicy'', nat_expand = [], nat_search = None,
      nat_rule_range = None, nat_as_yaml = False\<rparr>"

section \<open>The network element query (network_element_facts.py)\<close>

record net_element =
  element_name :: string
  element_typeof :: string

record element_server =
  search_elements_by_type :: "string \<Rightarrow> net_element list"
  search_elements_by_context :: "string \<Rightarrow> net_element list"

record element_params =
  ne_element :: "string option"
  ne_filter :: "string option"
  ne_expand :: "string list"

text \<open>
  One returned element: the terse dictionary with \<open>name\<close> and \<open>type\<close>, or the record
  \<open>element_dict_from_obj(element, ELEMENT_TYPES, expand)\<close>, kept symbolic.
\<close>

datatype element_out =
    Element_entry string string
  | Element_dict net_element "string list"

fun ne_check_expand :: "string list \<Rightarrow> failure option" where
  "ne_check_expand [] = None"
| "ne_check_expand (attr # rest) =
     (if attr \<notin> set [''group'']
      then Some (Fail_json (''Invalid expandable attribute: '' @ attr @
                  '' provided. Valid options are: group''))
      else ne_check_expand rest)"

definition NetworkElementFacts_exec_module ::
    "element_server \<Rightarrow> element_params \<Rightarrow> lookup list \<times> (failure + element_out list)" where
  "NetworkElementFacts_exec_module smc p =
     (case ne_check_expand (ne_expand p) of
        Some f \<Rightarrow> ([], Inl f)
      | None \<Rightarrow>
         (let (calls, result) =
                (if str_truthy (ne_element p)
                 then ([Search_by_type (the (ne_element p)) (case ne_filter p of None \<Rightarrow> [] | Some f \<Rightarrow> f)],
                       search_elements_by_type smc (the (ne_element p)))
                 else ([Search_by_context ''network_elements''],
                       search_elements_by_context smc ''network_elements''))
          in (calls,
              Inr (if str_truthy (ne_filter p)
                   then map (\<lambda>element. Element_dict element (ne_expand p)) result
                   else map (\<lambda>element. Element_entry (element_name element) (element_typeof element))
                          result))))"

section \<open>The Route VPN reconciler (route_vpn.py)\<close>

subsection \<open>The SMC server as the module sees it\<close>

text \<open>
  The objects the module reads and writes through the client library. An engine has a
  name, tunnel interfaces (by interface id), interfaces with their addresses, and
  internal endpoints (by address) with their IPSEC flag. A Route VPN has an enabled
  flag, two tunnel endpoints, a preshared key and an optional VPN profile.
\<close>

record engine =
  engine_name :: string
  tunnel_interface :: "string list"
  interface :: "(string \<times> string list) list"
  internal_endpoint :: "(string \<times> bool) list"

datatype tunnel_endpoint =
    Engine_endpoint string string
  | Gateway_endpoint pyval

record route_vpn =
  rbvpn_enabled :: bool
  local_endpoint :: tunnel_endpoint
  remote_endpoint :: tunnel_endpoint
  rbvpn_preshared_key :: pyval
  vpn_profile :: "string option"

text \<open>
  Every call to the client library that reaches the server, reads and writes alike.
  Building a \<open>TunnelEndpoint\<close> or a \<open>VPNProfile\<close> object is local and is no call.
\<close>

datatype smc_call =
    RouteVPN_fetch string
  | RouteVPN_disable string
  | RouteVPN_enable string
  | RouteVPN_delete string
  | RouteVPN_create_ipsec_tunnel string tunnel_endpoint tunnel_endpoint pyval "string option"
  | Engine_get pyval
  | Engine_tunnel_interface string
  | Engine_interface_get string pyval
  | InternalEndpoint_get_exact string pyval
  | InternalEndpoint_update string string
  | ExternalGateway_update_or_create pydict
  | Element_search string pyval

fun is_mutating :: "smc_call \<Rightarrow> bool" where
  "is_mutating (RouteVPN_disable n) = True"
| "is_mutating (RouteVPN_enable n) = True"
| "is_mutating (RouteVPN_delete n) = True"
| "is_mutating (RouteVPN_create_ipsec_tunnel n l r k p) = True"
| "is_mutating (InternalEndpoint_update e a) = True"
| "is_mutating (ExternalGateway_update_or_create d) = True"
| "is_mutating c = False"

text \<open>
  The server state. \<open>refuses\<close> says which writes the server rejects (the library then
  raises \<open>SMCException\<close>), \<open>error_text\<close> is the message of the exception a call
  raises, and \<open>call_log\<close> is the log of calls made so far.
\<close>

record smc =
  route_vpns :: "string \<rightharpoonup> route_vpn"
  engines :: "engine list"
  external_gateways :: "(pyval \<times> pydict) list"
  elements :: "string \<times> string \<rightharpoonup> string"
  refuses :: "smc_call \<Rightarrow> bool"
  error_text :: "smc_call \<Rightarrow> string"
  call_log :: "smc_call list"

subsection \<open>Runs\<close>

text \<open>
  A step of the module takes the server state and returns the new state with either a
  failure or a value. The state at a failure is kept: it holds the calls made until then.
\<close>

type_synonym 'a run = "smc \<Rightarrow> smc \<times> (failure + 'a)"

definition ret :: "'a \<Rightarrow> 'a run" where
  "ret x = (\<lambda>w. (w, Inr x))"

definition raise :: "failure \<Rightarrow> 'a run" where
  "raise f = (\<lambda>w. (w, Inl f))"

definition bnd :: "'a run \<Rightarrow> ('a \<Rightarrow> 'b run) \<Rightarrow> 'b run" where
  "bnd m k = (\<lambda>w. case m w of (w', Inl f) \<Rightarrow> (w', Inl f) | (w', Inr x) \<Rightarrow> k x w')"

definition lift :: "failure + 'a \<Rightarrow> 'a run" where
  "lift r = (\<lambda>w. (w, r))"

definition smc_read :: "smc_call \<Rightarrow> (smc \<Rightarrow> 'a) \<Rightarrow> 'a run" where
  "smc_read c f = (\<lambda>w. (w\<lparr>call_log := call_log w @ [c]\<rparr>, Inr (f w)))"

text \<open>A write: logged, then either refused with \<open>SMCException\<close> or applied.\<close>

definition smc_write :: "smc_call \<Rightarrow> (smc \<Rightarrow> smc) \<Rightarrow> unit run" where
  "smc_write c f =
     (\<lambda>w. if refuses w c
          then (w\<lparr>call_log := call_log w @ [c]\<rparr>, Inl (SMCException (error_text w c)))
          else (f (w\<lparr>call_log := call_log w @ [c]\<rparr>), Inr ()))"

text \<open>\<open>try: ... except SMCException as err: self.fail(msg=str(err), ...)\<close>\<close>

definition try_smc :: "'a run \<Rightarrow> 'a run" where
  "try_smc m =
     (\<lambda>w. case m w of
            (w', Inl (SMCException msg)) \<Rightarrow> (w', Inl (Fail_json msg))
          | r \<Rightarrow> r)"

subsection \<open>Parameters and result\<close>

datatype vpn_state = Present | Absent

record vpn_params =
  vpn_name :: string
  vpn_state :: vpn_state
  vpn_enabled :: "bool option"
  local_gw :: pydict
  remote_gw :: pydict
  vpn_profile_name :: "string option"
  preshared_key :: "string option"
  check_mode :: bool

text \<open>
  \<open>self.results\<close>: \<open>changed\<close> and \<open>state\<close>. The latter starts as the empty list and
  is later assigned \<open>rbvpn.data.data\<close>, the data of the Route VPN object.
\<close>

datatype state_value = Empty_list | Snapshot route_vpn

record vpn_results =
  changed :: bool
  state :: state_value

text \<open>An internal endpoint object as fetched: its engine, its address and its IPSEC flag
  at the time of the fetch.\<close>

record endpoint_obj =
  ep_engine :: string
  ep_address :: string
  ep_enabled :: bool

subsection \<open>Lookups of the helper methods\<close>

text \<open>
  Modelled from the spec: \<open>fetch_element\<close> of the base class \<open>ForcepointModuleBase\<close>
  (module_utils/smc_util.py, not among the sources). The specification speaks of the
  "existing-or-absent Route VPN object" the reconciler is applied to: the lookup of the
  Route VPN by the module's \<open>name\<close>, giving the object or \<open>None\<close>.
\<close>

definition fetch_element :: "string \<Rightarrow> route_vpn option run" where
  "fetch_element name = smc_read (RouteVPN_fetch name) (\<lambda>w. route_vpns w name)"

text \<open>The first key of the list that the dictionary does not have.\<close>

fun first_missing :: "pydict \<Rightarrow> string list \<Rightarrow> string option" where
  "first_missing d [] = None"
| "first_missing d (k # ks) = (if \<not> dict_has d k then Some k else first_missing d ks)"

text \<open>\<open>Engine.get(name, raise_exc=False)\<close>: the engine of that name, or \<open>None\<close>.\<close>

definition Engine_lookup :: "smc \<Rightarrow> pyval \<Rightarrow> engine option" where
  "Engine_lookup w name =
     (case name of
        PStr s \<Rightarrow> find (\<lambda>e. engine_name e = s) (engines w)
      | _ \<Rightarrow> None)"

definition get_managed_gateway :: "pydict \<Rightarrow> engine run" where
  "get_managed_gateway gw =
     (case first_missing gw [''name'', ''tunnel_interface'', ''interface_id''] of
        Some req \<Rightarrow>
          raise (Fail_json ''Managed gateway requires name, interface_id and tunnel_interface fields'')
      | None \<Rightarrow>
          bnd (smc_read (Engine_get (dict_get gw ''name''))
                 (\<lambda>w. Engine_lookup w (dict_get gw ''name'')))
            (\<lambda>managed_gw.
               case managed_gw of
                 None \<Rightarrow> raise (Fail_json (''The specified managed gateway specified does not exist: ''
                                   @ py_str (dict_get gw ''name'')))
               | Some e \<Rightarrow> ret e))"

definition get_tunnel_interface :: "engine \<Rightarrow> pyval \<Rightarrow> string run" where
  "get_tunnel_interface eng interface_id =
     bnd (smc_read (Engine_tunnel_interface (engine_name eng)) (\<lambda>w. tunnel_interface eng))
       (\<lambda>interfaces.
          case find (\<lambda>i. i = py_str interface_id) interfaces of
            None \<Rightarrow> raise (Fail_json (''Cannot find specified tunnel interface: '' @ py_str interface_id
                              @ '' for specified gateway '' @ engine_name eng))
          | Some i \<Rightarrow> ret i)"

text \<open>\<open>engine.vpn.internal_endpoint.get_exact(address)\<close>\<close>

definition get_exact :: "engine \<Rightarrow> pyval \<Rightarrow> endpoint_obj option run" where
  "get_exact eng address =
     smc_read (InternalEndpoint_get_exact (engine_name eng) address)
       (\<lambda>w. case address of
               PStr a \<Rightarrow>
                 (case map_of (internal_endpoint eng) a of
                    None \<Rightarrow> None
                  | Some en \<Rightarrow> Some \<lparr>ep_engine = engine_name eng, ep_address = a, ep_enabled = en\<rparr>)
             | _ \<Rightarrow> None)"

text \<open>The loop over the addresses of the interface: two calls for an address that has
  an endpoint, the second one's result is appended.\<close>

fun collect_endpoints :: "engine \<Rightarrow> string list \<Rightarrow> endpoint_obj list run" where
  "collect_endpoints eng [] = ret []"
| "collect_endpoints eng (addr # rest) =
     bnd (get_exact eng (PStr addr))
       (\<lambda>found.
          case found of
            None \<Rightarrow> collect_endpoints eng rest
          | Some x \<Rightarrow>
              bnd (get_exact eng (PStr addr))
                (\<lambda>ep. bnd (collect_endpoints eng rest)
                   (\<lambda>eps. ret ((case ep of None \<Rightarrow> [] | Some y \<Rightarrow> [y]) @ eps))))"

definition get_ipsec_endpoint :: "engine \<Rightarrow> pyval \<Rightarrow> pyval \<Rightarrow> endpoint_obj list run" where
  "get_ipsec_endpoint eng interface_id address =
     bnd (smc_read (Engine_interface_get (engine_name eng) interface_id)
            (\<lambda>w. (map_of (interface eng) (py_str interface_id),
                  error_text w (Engine_interface_get (engine_name eng) interface_id))))
       (\<lambda>(found, err).
          case found of
            None \<Rightarrow> raise (Fail_json (''Fetch IPSEC interface for endpoint failed: '' @ err))
          | Some addresses \<Rightarrow>
              bnd (if py_truthy address
                   then bnd (get_exact eng address)
                          (\<lambda>ep. ret (case ep of None \<Rightarrow> [] | Some y \<Rightarrow> [y]))
                   else collect_endpoints eng addresses)
                (\<lambda>endpoints.
                   if endpoints = []
                   then raise (Fail_json (''No IPSEC endpoint interfaces found. The specified interface ID was: ''
                                 @ py_str interface_id @ '' and address: '' @ py_str address))
                   else ret endpoints))"

text \<open>\<open>endpoint.update(enabled=True)\<close> on the server.\<close>

definition enable_endpoint :: "string \<Rightarrow> string \<Rightarrow> smc \<Rightarrow> smc" where
  "enable_endpoint eng addr w =
     w\<lparr>engines :=
         map (\<lambda>e. if engine_name e = eng
                   then e\<lparr>internal_endpoint :=
                            map (\<lambda>ae. if fst ae = addr then (addr, True) else ae) (internal_endpoint e)\<rparr>
                   else e)
           (engines w)\<rparr>"

fun update_ipsec_listener :: "endpoint_obj list \<Rightarrow> bool run" where
  "update_ipsec_listener [] = ret False"
| "update_ipsec_listener (endpoint # rest) =
     (if \<not> ep_enabled endpoint
      then bnd (smc_write (InternalEndpoint_update (ep_engine endpoint) (ep_address endpoint))
                  (enable_endpoint (ep_engine endpoint) (ep_address endpoint)))
             (\<lambda>u. bnd (update_ipsec_listener rest) (\<lambda>c. ret True))
      else update_ipsec_listener rest)"

subsection \<open>The cache of resolved names\<close>

text \<open>
  Modelled from the spec: \<open>Cache\<close> of module_utils/smc_util.py (not among the
  sources). The specification: names "are resolved to references via a name\<rightarrow>object cache
  that records any unresolvable names", with "no caching beyond per-invocation
  memoization". Adding a (type, name) pair that is not cached looks the element up on the
  server; a hit is cached with its reference, a miss is recorded in \<open>missing\<close>. A name
  that is not a string resolves to nothing.
\<close>

record cache =
  cached :: "((string \<times> string) \<times> string) list"
  missing :: "(string \<times> pyval) list"

definition empty_cache :: cache where
  "empty_cache = \<lparr>cached = [], missing = []\<rparr>"

definition cache_get :: "cache \<Rightarrow> string \<Rightarrow> pyval \<Rightarrow> string option" where
  "cache_get c typeof name =
     (case name of PStr n \<Rightarrow> map_of (cached c) (typeof, n) | _ \<Rightarrow> None)"

definition cache_get_type :: "cache \<Rightarrow> string \<Rightarrow> string list" where
  "cache_get_type c typeof = map snd (filter (\<lambda>e. fst (fst e) = typeof) (cached c))"

definition cache_add_entry :: "cache \<Rightarrow> string \<Rightarrow> pyval \<Rightarrow> cache run" where
  "cache_add_entry c typeof name =
     (if cache_get c typeof name \<noteq> None then ret c
      else bnd (smc_read (Element_search typeof name)
                  (\<lambda>w. case name of PStr n \<Rightarrow> elements w (typeof, n) | _ \<Rightarrow> None))
             (\<lambda>r. case r of
                     Some href \<Rightarrow> ret (c\<lparr>cached := cached c @ [((typeof, py_str name), href)]\<rparr>)
                   | None \<Rightarrow> ret (c\<lparr>missing := missing c @ [(typeof, name)]\<rparr>)))"

fun cache_add_names :: "cache \<Rightarrow> string \<Rightarrow> pyval list \<Rightarrow> cache run" where
  "cache_add_names c typeof [] = ret c"
| "cache_add_names c typeof (name # rest) =
     bnd (cache_add_entry c typeof name) (\<lambda>c'. cache_add_names c' typeof rest)"

fun cache_add :: "cache \<Rightarrow> pydict \<Rightarrow> cache run" where
  "cache_add c [] = ret c"
| "cache_add c (entry # rest) =
     bnd (lift (py_iter (snd entry)))
       (\<lambda>names. bnd (cache_add_names c (fst entry) names) (\<lambda>c'. cache_add c' rest))"

subsection \<open>Resolution of the gateways\<close>

text \<open>
  The first loop over the external endpoints: each needs \<open>name\<close> and \<open>address\<close>, then
  \<open>connection_type\<close>; the connection types are collected.
\<close>

fun check_endpoints :: "pyval list \<Rightarrow> failure + pyval list" where
  "check_endpoints [] = Inr []"
| "check_endpoints (endpoint # rest) =
     (case py_contains endpoint ''name'' of
        Inl f \<Rightarrow> Inl f
      | Inr has_name \<Rightarrow>
     (case py_contains endpoint ''address'' of
        Inl f \<Rightarrow> Inl f
      | Inr has_address \<Rightarrow>
          if \<not> has_name \<or> \<not> has_address
          then Inl (Fail_json ''An external endpoint must have at least a name and an address definition.'')
          else
     (case py_contains endpoint ''connection_type'' of
        Inl f \<Rightarrow> Inl f
      | Inr has_type \<Rightarrow>
          if \<not> has_type
          then Inl (Fail_json ''You must provide the connection_type parameter when creating an external endpoint'')
          else
            (case endpoint of
               PDict d \<Rightarrow>
                 (case check_endpoints rest of
                    Inl f \<Rightarrow> Inl f
                  | Inr ctypes \<Rightarrow> Inr (dict_get d ''connection_type'' # ctypes))
             | _ \<Rightarrow> Inl (Python_error ''AttributeError: get'')))))"

text \<open>
  The second loop: \<open>connection_type\<close> is popped from each endpoint and replaced by
  \<open>connection_type_ref\<close>, the reference of the cached element.
\<close>

fun build_endpoints :: "cache \<Rightarrow> pyval list \<Rightarrow> failure + pyval list" where
  "build_endpoints c [] = Inr []"
| "build_endpoints c (endpoint # rest) =
     (case endpoint of
        PDict d \<Rightarrow>
          (if \<not> dict_has d ''connection_type'' then Inl (Python_error ''KeyError: connection_type'')
           else
             (case cache_get c ''connection_type'' (dict_get d ''connection_type'') of
                None \<Rightarrow> Inl (Python_error ''AttributeError: href'')
              | Some href \<Rightarrow>
                  (case build_endpoints c rest of
                     Inl f \<Rightarrow> Inl f
                   | Inr eps \<Rightarrow>
                       Inr (PDict (dict_set (dict_pop d ''connection_type'')
                                     ''connection_type_ref'' (PStr href)) # eps))))
      | _ \<Rightarrow> Inl (Python_error ''AttributeError: update''))"

text \<open>
  The optional VPN site: its name is popped, the remaining keys are element types with
  lists of element names, which must all resolve. The result is the cache and the
  \<open>vpn_site\<close> entry of the gateway, if any.
\<close>

definition resolve_vpn_site :: "pydict \<Rightarrow> cache \<Rightarrow> (cache \<times> pydict) run" where
  "resolve_vpn_site gw c =
     (if \<not> dict_has gw ''vpn_site'' then ret (c, [])
      else
        (case dict_get gw ''vpn_site'' of
           PDict site \<Rightarrow>
             (let site_name = dict_get site ''name'';
                  site_types = dict_pop site ''name''
              in if \<not> py_truthy site_name
                 then raise (Fail_json ''A VPN site requires a name to continue'')
                 else
                   bnd (cache_add c site_types)
                     (\<lambda>c'. if missing c' \<noteq> []
                           then raise (Fail_json_missing
                                  ''Could not find the specified elements for the VPN site configuration: ''
                                  (missing c'))
                           else ret (c', [(''vpn_site'',
                                   PList [PDict [(''name'', site_name),
                                                 (''site_element'',
                                                  PList (map PStr (concat (map (cache_get_type c')
                                                                     (map fst site_types)))))]])])))
         | _ \<Rightarrow> raise (Python_error ''AttributeError: pop'')))"

text \<open>
  The external gateway branch: the keyword arguments for
  \<open>ExternalGateway.update_or_create\<close>, or the failure of the first check that fails.
\<close>

definition resolve_external_gateway :: "pydict \<Rightarrow> pydict run" where
  "resolve_external_gateway gw =
     (case first_missing gw [''name'', ''preshared_key'', ''external_endpoint''] of
        Some required \<Rightarrow>
          raise (Fail_json (''Missing required field for the external endpoint configuration: ''
                   @ required))
      | None \<Rightarrow>
          bnd (lift (py_iter (dict_get gw ''external_endpoint'')))
            (\<lambda>endpoints.
          bnd (lift (check_endpoints endpoints))
            (\<lambda>ctypes.
          bnd (cache_add_names empty_cache ''connection_type'' ctypes)
            (\<lambda>c.
               if missing c \<noteq> [] then raise (Fail_json_missing [] (missing c))
               else
          bnd (resolve_vpn_site gw c)
            (\<lambda>(c', site).
          bnd (lift (build_endpoints c' endpoints))
            (\<lambda>external_endpoint.
               ret ([(''name'', dict_get gw ''name'')] @ site @
                    [(''external_endpoint'', PList external_endpoint)])))))))"

datatype remote_side =
    Managed engine string "endpoint_obj list"
  | External pydict

record resolved =
  local_engine :: engine
  local_tunnel_interface :: string
  local_internal_endpoint :: "endpoint_obj list"
  remote :: remote_side

definition is_external :: "vpn_params \<Rightarrow> bool" where
  "is_external p = (dict_get (remote_gw p) ''type'' = PStr ''external_gateway'')"

text \<open>
  Everything between the short circuit and the \<open>try\<close> block: first the local
  gateway, then the remote one, managed or external.
\<close>

definition resolve_local :: "vpn_params \<Rightarrow> (engine \<times> string \<times> endpoint_obj list) run" where
  "resolve_local p =
     bnd (get_managed_gateway (local_gw p))
       (\<lambda>l_engine.
     bnd (get_tunnel_interface l_engine (dict_get (local_gw p) ''tunnel_interface''))
       (\<lambda>l_tunnel.
     bnd (get_ipsec_endpoint l_engine (dict_get (local_gw p) ''interface_id'')
            (dict_get (local_gw p) ''address''))
       (\<lambda>l_endpoints. ret (l_engine, l_tunnel, l_endpoints))))"

definition resolve_remote :: "vpn_params \<Rightarrow> remote_side run" where
  "resolve_remote p =
     (if \<not> is_external p
      then bnd (get_managed_gateway (remote_gw p))
             (\<lambda>r_engine.
           bnd (get_tunnel_interface r_engine (dict_get (remote_gw p) ''tunnel_interface''))
             (\<lambda>r_tunnel.
           bnd (get_ipsec_endpoint r_engine (dict_get (remote_gw p) ''interface_id'')
                  (dict_get (remote_gw p) ''address''))
             (\<lambda>r_endpoints. ret (Managed r_engine r_tunnel r_endpoints))))
      else bnd (resolve_external_gateway (remote_gw p)) (\<lambda>g. ret (External g)))"

definition resolve_gateways :: "vpn_params \<Rightarrow> resolved run" where
  "resolve_gateways p =
     bnd (resolve_local p)
       (\<lambda>(l_engine, l_tunnel, l_endpoints).
     bnd (resolve_remote p)
       (\<lambda>r. ret \<lparr>local_engine = l_engine, local_tunnel_interface = l_tunnel,
                  local_internal_endpoint = l_endpoints, remote = r\<rparr>))"

subsection \<open>Writes\<close>

text \<open>
  \<open>ExternalGateway.update_or_create(with_status=True, **external_gateway)\<close>: creates
  the gateway when none has its name, updates it when its definition differs, and
  reports (updated, created).
\<close>

definition update_or_create :: "pydict \<Rightarrow> (bool \<times> bool) run" where
  "update_or_create gw =
     (\<lambda>w. let c = ExternalGateway_update_or_create gw;
              w' = w\<lparr>call_log := call_log w @ [c]\<rparr>
          in if refuses w c then (w', Inl (SMCException (error_text w c)))
             else
               (case map_of (external_gateways w) (dict_get gw ''name'') of
                  None \<Rightarrow>
                    (w'\<lparr>external_gateways := external_gateways w @ [(dict_get gw ''name'', gw)]\<rparr>,
                     Inr (False, True))
                | Some old \<Rightarrow>
                    if old = gw then (w', Inr (False, False))
                    else (w'\<lparr>external_gateways :=
                               map (\<lambda>ng. if fst ng = dict_get gw ''name''
                                          then (dict_get gw ''name'', gw) else ng)
                                 (external_gateways w)\<rparr>,
                          Inr (True, False))))"

definition set_enabled :: "string \<Rightarrow> bool \<Rightarrow> smc \<Rightarrow> smc" where
  "set_enabled name b w =
     (case route_vpns w name of
        None \<Rightarrow> w
      | Some rv \<Rightarrow> w\<lparr>route_vpns := (route_vpns w)(name \<mapsto> rv\<lparr>rbvpn_enabled := b\<rparr>)\<rparr>)"

text \<open>
  \<open>self.results['state'] = rbvpn.data.data; self.results['changed'] = changed\<close>: the
  data of the Route VPN object as the server holds it now.
\<close>

definition results_with_state :: "string \<Rightarrow> bool \<Rightarrow> vpn_results run" where
  "results_with_state name c =
     (\<lambda>w. case route_vpns w name of
            None \<Rightarrow> (w, Inl (SMCException (error_text w (RouteVPN_fetch name))))
          | Some rv \<Rightarrow> (w, Inr \<lparr>changed = c, state = Snapshot rv\<rparr>))"

text \<open>The branch \<open>if not rbvpn\<close>: tunnel endpoints, IPSEC listeners, the Route VPN.\<close>

definition create_route_vpn :: "vpn_params \<Rightarrow> resolved \<Rightarrow> vpn_results run" where
  "create_route_vpn p res =
     (let local_gateway =
            Engine_endpoint (engine_name (local_engine res)) (local_tunnel_interface res)
      in
      bnd (update_ipsec_listener (local_internal_endpoint res))
        (\<lambda>c1.
      bnd (if \<not> is_external p
           then (case remote res of
                   Managed r_engine r_tunnel r_endpoints \<Rightarrow>
                     bnd (update_ipsec_listener r_endpoints)
                       (\<lambda>c2. ret (Engine_endpoint (engine_name r_engine) r_tunnel))
                 | External g \<Rightarrow> raise (Python_error ''NameError: remote_engine''))
           else (case remote res of
                   External g \<Rightarrow>
                     bnd (update_or_create g)
                       (\<lambda>status. ret (Gateway_endpoint (dict_get g ''name'')))
                 | Managed r_engine r_tunnel r_endpoints \<Rightarrow>
                     raise (Python_error ''NameError: external_gateway'')))
        (\<lambda>remote_gateway.
      bnd (smc_write
             (RouteVPN_create_ipsec_tunnel (vpn_name p) local_gateway remote_gateway
                (if is_external p then dict_get (remote_gw p) ''preshared_key''
                 else (case preshared_key p of None \<Rightarrow> PNone | Some k \<Rightarrow> PStr k))
                (if str_truthy (vpn_profile_name p) then vpn_profile_name p else None))
             (\<lambda>w. w\<lparr>route_vpns := (route_vpns w)(vpn_name p \<mapsto>
                       \<lparr>rbvpn_enabled = True,
                        local_endpoint = local_gateway,
                        remote_endpoint = remote_gateway,
                        rbvpn_preshared_key =
                          (if is_external p then dict_get (remote_gw p) ''preshared_key''
                           else (case preshared_key p of None \<Rightarrow> PNone | Some k \<Rightarrow> PStr k)),
                        vpn_profile =
                          (if str_truthy (vpn_profile_name p) then vpn_profile_name p else None)\<rparr>)\<rparr>))
        (\<lambda>u. results_with_state (vpn_name p) True))))"

text \<open>The branch for an existing Route VPN: enable if asked, update or create the
  external gateway.\<close>

definition update_route_vpn :: "vpn_params \<Rightarrow> route_vpn \<Rightarrow> resolved \<Rightarrow> vpn_results run" where
  "update_route_vpn p rbvpn res =
     bnd (if vpn_enabled p \<noteq> None \<and> (\<not> rbvpn_enabled rbvpn \<and> the (vpn_enabled p))
          then bnd (smc_write (RouteVPN_enable (vpn_name p)) (set_enabled (vpn_name p) True))
                 (\<lambda>u. ret True)
          else ret False)
       (\<lambda>c1.
     bnd (if is_external p
          then (case remote res of
                  External g \<Rightarrow>
                    bnd (update_or_create g) (\<lambda>status. ret (fst status \<or> snd status))
                | Managed r_engine r_tunnel r_endpoints \<Rightarrow>
                    raise (Python_error ''NameError: external_gateway''))
          else ret False)
       (\<lambda>c2. results_with_state (vpn_name p) (c1 \<or> c2)))"

text \<open>The \<open>try\<close> block for \<open>state == 'present'\<close>, with the check-mode return first.\<close>

definition apply_present :: "vpn_params \<Rightarrow> route_vpn option \<Rightarrow> resolved \<Rightarrow> vpn_results run" where
  "apply_present p rbvpn res =
     (if check_mode p then ret \<lparr>changed = False, state = Empty_list\<rparr>
      else (case rbvpn of
              None \<Rightarrow> create_route_vpn p res
            | Some rv \<Rightarrow> update_route_vpn p rv res))"

text \<open>The \<open>try\<close> block for \<open>state == 'absent'\<close>.\<close>

definition apply_absent :: "vpn_params \<Rightarrow> route_vpn option \<Rightarrow> vpn_results run" where
  "apply_absent p rbvpn =
     (case rbvpn of
        None \<Rightarrow> ret \<lparr>changed = False, state = Empty_list\<rparr>
      | Some rv \<Rightarrow>
          bnd (smc_write (RouteVPN_delete (vpn_name p))
                 (\<lambda>w. w\<lparr>route_vpns := (route_vpns w)(vpn_name p := None)\<rparr>))
            (\<lambda>u. ret \<lparr>changed = True, state = Empty_list\<rparr>))"

text \<open>The condition of the short circuit: an existing, enabled Route VPN and
  \<open>enabled: false\<close> requested.\<close>

definition short_circuit_disable :: "vpn_params \<Rightarrow> route_vpn option \<Rightarrow> bool" where
  "short_circuit_disable p rbvpn =
     (case rbvpn of
        None \<Rightarrow> False
      | Some rv \<Rightarrow> vpn_enabled p \<noteq> None \<and> (rbvpn_enabled rv \<and> \<not> the (vpn_enabled p)))"

definition ForcepointRouteVPN_exec_module :: "vpn_params \<Rightarrow> vpn_results run" where
  "ForcepointRouteVPN_exec_module p =
     bnd (fetch_element (vpn_name p))
       (\<lambda>rbvpn.
          case vpn_state p of
            Present \<Rightarrow>
              if short_circuit_disable p rbvpn
              then bnd (smc_write (RouteVPN_disable (vpn_name p)) (set_enabled (vpn_name p) False))
                     (\<lambda>u. ret \<lparr>changed = True, state = Empty_list\<rparr>)
              else bnd (resolve_gateways p) (\<lambda>res. try_smc (apply_present p rbvpn res))
          | Absent \<Rightarrow> try_smc (apply_absent p rbvpn))"

subsection \<open>Frame conditions\<close>

text \<open>
  A step that only reads: whatever the state, it leaves the server as it was and appends
  calls that are no writes. A step whose failures are all module failures with a string
  message (\<open>self.fail(msg=...)\<close>).
\<close>

definition reads_only :: "'a run \<Rightarrow> bool" where
  "reads_only m =
     (\<forall>w. \<exists>evs. fst (m w) = w\<lparr>call_log := call_log w @ evs\<rparr> \<and> (\<forall>c \<in> set evs. \<not> is_mutating c))"

definition fails_with_message :: "'a run \<Rightarrow> bool" where
  "fails_with_message m = (\<forall>w f. snd (m w) = Inl f \<longrightarrow> (\<exists>msg. f = Fail_json msg))"

subsection \<open>Example data\<close>

text \<open>
  A server with two engines and a connection type, without and with an enabled Route
  VPN \<open>myrbvpn\<close>, and four invocations.
\<close>

definition example_engines :: "engine list" where
  "example_engines =
     [\<lparr>engine_name = ''newcluster'', tunnel_interface = [''1001''],
       interface = [(''1'', [''2.2.2.2''])], internal_endpoint = [(''2.2.2.2'', False)]\<rparr>,
      \<lparr>engine_name = ''myfw'', tunnel_interface = [''1000''],
       interface = [(''0'', [''10.0.0.1''])], internal_endpoint = [(''10.0.0.1'', True)]\<rparr>]"

definition smc_no_vpn :: smc where
  "smc_no_vpn =
     \<lparr>route_vpns = Map.empty,
      engines = example_engines,
      external_gateways = [],
      elements = [(''connection_type'', ''Active 1'') \<mapsto> ''http://smc/connection_type/1''],
      refuses = (\<lambda>c. False),
      error_text = (\<lambda>c. ''refused''),
      call_log = []\<rparr>"

definition example_vpn :: route_vpn where
  "example_vpn =
     \<lparr>rbvpn_enabled = True,
      local_endpoint = Engine_endpoint ''newcluster'' ''1001'',
      remote_endpoint = Engine_endpoint ''myfw'' ''1000'',
      rbvpn_preshared_key = PNone,
      vpn_profile = None\<rparr>"

definition smc_with_vpn :: smc where
  "smc_with_vpn = smc_no_vpn\<lparr>route_vpns := [''myrbvpn'' \<mapsto> example_vpn]\<rparr>"

definition managed_gateways :: vpn_params where
  "managed_gateways =
     \<lparr>vpn_name = ''myrbvpn'', vpn_state = Present, vpn_enabled = None,
      local_gw = [(''name'', PStr ''newcluster''), (''tunnel_interface'', PStr ''1001''),
                  (''interface_id'', PStr ''1'')],
      remote_gw = [(''name'', PStr ''myfw''), (''tunnel_interface'', PStr ''1000''),
                   (''interface_id'', PStr ''0'')],
      vpn_profile_name = None, preshared_key = Some ''module-key'', check_mode = False\<rparr>"

definition external_gateway :: vpn_params where
  "external_gateway =
     managed_gateways\<lparr>remote_gw :=
        [(''name'', PStr ''extgw3''), (''preshared_key'', PStr ''gateway-key''),
         (''type'', PStr ''external_gateway''),
         (''external_endpoint'',
            PList [PDict [(''name'', PStr ''endpoint1''), (''address'', PStr ''33.33.33.41''),
                          (''connection_type'', PStr ''Active 1'')]])]\<rparr>"

definition external_gateway_no_key :: vpn_params where
  "external_gateway_no_key =
     managed_gateways\<lparr>remote_gw :=
        [(''name'', PStr ''extgw3''), (''type'', PStr ''external_gateway''),
         (''external_endpoint'', PList [])]\<rparr>"

definition smc_with_disabled_vpn :: smc where
  "smc_with_disabled_vpn =
     smc_no_vpn\<lparr>route_vpns := [''myrbvpn'' \<mapsto> example_vpn\<lparr>rbvpn_enabled := False\<rparr>]\<rparr>"

section \<open>Properties\<close>

subsection \<open>Expand keys\<close>

lemma nat_check_expand_Some:
  "\<not> set xs \<subseteq> set expands \<Longrightarrow>
   \<exists>attr \<in> set xs. attr \<notin> set expands \<and>
     nat_check_expand xs = Some (Fail_json (''Invalid expandable attribute: '' @ attr @
                  '' provided. Valid options are: '' @ repr_str_tuple expands))"
  by (induction xs) auto

lemma ne_check_expand_Some:
  "\<not> set xs \<subseteq> {''group''} \<Longrightarrow>
   \<exists>attr \<in> set xs. attr \<noteq> ''group'' \<and>
     ne_check_expand xs = Some (Fail_json (''Invalid expandable attribute: '' @ attr @
                  '' provided. Valid options are: group''))"
  by (induction xs) auto

lemma repr_expands: "repr_str_tuple expands = ''('sources', 'destinations', 'services')''"
  by (simp add: repr_str_tuple_def expands_def repr_str_def repr_quote_def repr_char_def)

lemma set_expands: "set expands = {''sources'', ''destinations'', ''services''}"
  by (simp add: expands_def)

text \<open>
  Claim C8. An \<open>expand\<close> list with an entry outside the module's valid set fails the
  module with no call to the server (the list of lookups is empty), and the message names
  the offending entry and enumerates the valid options: the tuple
  \<open>('sources', 'destinations', 'services')\<close> for the NAT rule query, \<open>group\<close> for the
  network element query.
\<close>

theorem invalid_expand_fails_before_lookup:
  "(\<not> set (nat_expand p) \<subseteq> {''sources'', ''destinations'', ''services''} \<longrightarrow>
      (\<exists>attr \<in> set (nat_expand p).
          attr \<notin> {''sources'', ''destinations'', ''services''} \<and>
          FirewallNATRuleFacts_exec_module smc p =
            ([], Inl (Fail_json (''Invalid expandable attribute: '' @ attr @
               '' provided. Valid options are: ('sources', 'destinations', 'services')'')))))
   \<and> (\<not> set (ne_expand q) \<subseteq> {''group''} \<longrightarrow>
      (\<exists>attr \<in> set (ne_expand q).
          attr \<noteq> ''group'' \<and>
          NetworkElementFacts_exec_module esmc q =
            ([], Inl (Fail_json (''Invalid expandable attribute: '' @ attr @
               '' provided. Valid options are: group'')))))"
proof (intro conjI impI)
  assume "\<not> set (nat_expand p) \<subseteq> {''sources'', ''destinations'', ''services''}"
  then have "\<not> set (nat_expand p) \<subseteq> set expands"
    by (simp add: set_expands)
  from nat_check_expand_Some [OF this] obtain attr where
    a: "attr \<in> set (nat_expand p)" "attr \<notin> set expands" and
    f: "nat_check_expand (nat_expand p) = Some (Fail_json (''Invalid expandable attribute: '' @ attr @
                  '' provided. Valid options are: '' @ repr_str_tuple expands))"
    by blast
  have "FirewallNATRuleFacts_exec_module smc p =
            ([], Inl (Fail_json (''Invalid expandable attribute: '' @ attr @
               '' provided. Valid options are: ('sources', 'destinations', 'services')'')))"
    unfolding FirewallNATRuleFacts_exec_module_def f repr_expands by simp
  with a show "\<exists>attr \<in> set (nat_expand p).
          attr \<notin> {''sources'', ''destinations'', ''services''} \<and>
          FirewallNATRuleFacts_exec_module smc p =
            ([], Inl (Fail_json (''Invalid expandable attribute: '' @ attr @
               '' provided. Valid options are: ('sources', 'destinations', 'services')'')))"
    unfolding set_expands by blast
next
  assume "\<not> set (ne_expand q) \<subseteq> {''group''}"
  from ne_check_expand_Some [OF this] obtain attr where
    a: "attr \<in> set (ne_expand q)" "attr \<noteq> ''group''" and
    f: "ne_check_expand (ne_expand q) = Some (Fail_json (''Invalid expandable attribute: '' @ attr @
                  '' provided. Valid options are: group''))"
    by blast
  have "NetworkElementFacts_exec_module esmc q =
            ([], Inl (Fail_json (''Invalid expandable attribute: '' @ attr @
               '' provided. Valid options are: group'')))"
    unfolding NetworkElementFacts_exec_module_def f by simp
  with a show "\<exists>attr \<in> set (ne_expand q).
          attr \<noteq> ''group'' \<and>
          NetworkElementFacts_exec_module esmc q =
            ([], Inl (Fail_json (''Invalid expandable attribute: '' @ attr @
               '' provided. Valid options are: group'')))"
    by blast
qed

text \<open>The same at two concrete invocations.\<close>

theorem invalid_expand_fails_before_lookup_witness:
  "FirewallNATRuleFacts_exec_module \<lparr>search_FirewallPolicy = (\<lambda>f. Inr []), python = cpython\<rparr>
     \<lparr>nat_filter = ''TestPolicy'', nat_expand = [''sources'', ''source''], nat_search = None,
      nat_rule_range = None, nat_as_yaml = False\<rparr> =
     ([], Inl (Fail_json
        ''Invalid expandable attribute: source provided. Valid options are: ('sources', 'destinations', 'services')''))
   \<and> NetworkElementFacts_exec_module
     \<lparr>search_elements_by_type = (\<lambda>t. []), search_elements_by_context = (\<lambda>c. [])\<rparr>
     \<lparr>ne_element = Some ''group'', ne_filter = None, ne_expand = [''group'', ''host'']\<rparr> =
     ([], Inl (Fail_json ''Invalid expandable attribute: host provided. Valid options are: group''))"
  using invalid_expand_fails_before_lookup
    [of "\<lparr>nat_filter = ''TestPolicy'', nat_expand = [''sources'', ''source''], nat_search = None,
      nat_rule_range = None, nat_as_yaml = False\<rparr>"
     "\<lparr>search_FirewallPolicy = (\<lambda>f. Inr []), python = cpython\<rparr>"
     "\<lparr>ne_element = Some ''group'', ne_filter = None, ne_expand = [''group'', ''host'']\<rparr>"
     "\<lparr>search_elements_by_type = (\<lambda>t. []), search_elements_by_context = (\<lambda>c. [])\<rparr>"]
  by simp

subsection \<open>Rule ranges\<close>

lemma py_split_no_sep: "t \<in> set (py_split c s) \<Longrightarrow> c \<notin> set t"
  by (induction s arbitrary: t) (auto split: if_splits list.splits)

lemma digits_value_nonneg_aux:
  "0 \<le> a \<Longrightarrow> list_all py_isdigit ds \<Longrightarrow>
   0 \<le> foldl (\<lambda>a c. 10 * a + (int (of_char c) - 48)) a ds"
  by (induction ds arbitrary: a) (auto simp: py_isdigit_def)

lemma py_int_unsigned_nonneg: "py_int_unsigned py b = Some v \<Longrightarrow> 0 \<le> v"
  by (auto simp: py_int_unsigned_def Let_def digits_value_def list_all_iff
      intro!: digits_value_nonneg_aux split: if_splits)

lemma set_py_strip: "set (py_strip s) \<subseteq> set s"
proof -
  have "set (py_strip s) \<subseteq> set (dropWhile py_isspace s)"
    unfolding py_strip_def using set_dropWhileD by fastforce
  also have "\<dots> \<subseteq> set s" using set_dropWhileD by fastforce
  finally show ?thesis .
qed

lemma py_int_nonneg: "py_int py t = Some v \<Longrightarrow> CHR ''-'' \<notin> set t \<Longrightarrow> 0 \<le> v"
proof -
  assume a: "py_int py t = Some v" and n: "CHR ''-'' \<notin> set t"
  show ?thesis
  proof (cases "py_strip t")
    case Nil
    with a show ?thesis by (simp add: py_int_def)
  next
    case (Cons c cs)
    then have "c \<in> set t" using set_py_strip [of t] by auto
    with n have "c \<noteq> CHR ''-''" by auto
    with a Cons show ?thesis
      by (auto simp: py_int_def dest: py_int_unsigned_nonneg split: if_splits)
  qed
qed

lemma parse_rule_range_nonneg:
  assumes "parse_rule_range py r = Some (s, e)"
  shows "0 \<le> s \<and> 0 \<le> e"
proof -
  from assms obtain a b where ab: "py_split CHR ''-'' r = [a, b]" "py_int py a = Some s" "py_int py b = Some e"
    by (auto simp: parse_rule_range_def split: list.splits option.splits)
  have "CHR ''-'' \<notin> set a" "CHR ''-'' \<notin> set b"
    using py_split_no_sep [of _ "CHR ''-''" r] ab(1) by auto
  with ab show ?thesis by (auto dest: py_int_nonneg)
qed

lemma parse_rule_range_tokens:
  "parse_rule_range py r = Some se \<Longrightarrow> t \<in> set (py_split CHR ''-'' r) \<Longrightarrow> py_int py t \<noteq> None"
  by (auto simp: parse_rule_range_def split: list.splits option.splits)

lemma py_split_without_sep: "c \<notin> set s \<Longrightarrow> py_split c s = [s]"
  by (induction s) auto

lemma py_split_at_sep: "c \<notin> set a \<Longrightarrow> py_split c (a @ c # b) = a # py_split c b"
  by (induction a) auto

lemma py_split_covers: "x \<in> set s \<Longrightarrow> x \<noteq> c \<Longrightarrow> \<exists>g \<in> set (py_split c s). x \<in> set g"
  by (induction s) (auto split: list.splits)

lemma dropWhile_none: "\<forall>x \<in> set xs. \<not> P x \<Longrightarrow> dropWhile P xs = xs"
  by (cases xs) auto

lemma dropWhile_keeps: "x \<in> set xs \<Longrightarrow> \<not> P x \<Longrightarrow> x \<in> set (dropWhile P xs)"
  by (induction xs) auto

lemma py_strip_keeps: "x \<in> set s \<Longrightarrow> \<not> py_isspace x \<Longrightarrow> x \<in> set (py_strip s)"
  by (simp add: py_strip_def dropWhile_keeps)

lemma py_isdigit_not_space: "py_isdigit c \<Longrightarrow> \<not> py_isspace c"
  by (auto simp: py_isdigit_def py_isspace_def)

lemma py_isdigit_not_sign:
  "py_isdigit c \<Longrightarrow> c \<noteq> CHR ''-'' \<and> c \<noteq> CHR ''+'' \<and> c \<noteq> CHR ''_''"
  by (auto simp: py_isdigit_def)

lemma py_strip_digits: "list_all py_isdigit a \<Longrightarrow> py_strip a = a"
  by (simp add: py_strip_def dropWhile_none list_all_iff py_isdigit_not_space)

lemma py_int_unsigned_digits:
  assumes "a \<noteq> []" and "list_all py_isdigit a"
    and "case int_max_str_digits py of None \<Rightarrow> True | Some m \<Rightarrow> length a \<le> m"
  shows "py_int_unsigned py a = Some (digits_value a)"
proof -
  from assms(2) have "CHR ''_'' \<notin> set a"
    using py_isdigit_not_sign by (auto simp: list_all_iff)
  then have "py_split CHR ''_'' a = [a]"
    by (rule py_split_without_sep)
  with assms show ?thesis
    by (simp add: py_int_unsigned_def split: option.splits)
qed

lemma py_int_digits:
  assumes "a \<noteq> []" and "list_all py_isdigit a"
    and "case int_max_str_digits py of None \<Rightarrow> True | Some m \<Rightarrow> length a \<le> m"
  shows "py_int py a = Some (digits_value a)"
proof -
  from assms(1) obtain c cs where a: "a = c # cs" by (cases a) auto
  with assms(2) have "c \<noteq> CHR ''-''" "c \<noteq> CHR ''+''"
    using py_isdigit_not_sign [of c] by auto
  with a py_strip_digits [OF assms(2)] py_int_unsigned_digits [OF assms] show ?thesis
    by (simp add: py_int_def)
qed

lemma py_int_over_limit:
  assumes "list_all py_isdigit a" and "int_max_str_digits py = Some m" and "m < length a"
  shows "py_int py a = None"
proof -
  from assms(3) obtain c cs where a: "a = c # cs" by (cases a) auto
  with assms(1) have sign: "c \<noteq> CHR ''-''" "c \<noteq> CHR ''+''"
    using py_isdigit_not_sign [of c] by auto
  from assms(1) have "CHR ''_'' \<notin> set a"
    using py_isdigit_not_sign by (auto simp: list_all_iff)
  then have "py_split CHR ''_'' a = [a]"
    by (rule py_split_without_sep)
  with assms(2,3) have "py_int_unsigned py a = None"
    by (simp add: py_int_unsigned_def)
  with a sign py_strip_digits [OF assms(1)] show ?thesis
    by (simp add: py_int_def)
qed

lemma parse_rule_range_digits:
  assumes "a \<noteq> []" and "list_all py_isdigit a" and "b \<noteq> []" and "list_all py_isdigit b"
    and "case int_max_str_digits py of None \<Rightarrow> True | Some m \<Rightarrow> length a \<le> m \<and> length b \<le> m"
  shows "parse_rule_range py (a @ ''-'' @ b) = Some (digits_value a, digits_value b)"
proof -
  from assms(2,4) have n: "CHR ''-'' \<notin> set a" "CHR ''-'' \<notin> set b"
    using py_isdigit_not_sign by (auto simp: list_all_iff)
  then have sp: "py_split CHR ''-'' (a @ CHR ''-'' # b) = [a, b]"
    by (simp add: py_split_at_sep py_split_without_sep)
  from assms(5) have la: "case int_max_str_digits py of None \<Rightarrow> True | Some m \<Rightarrow> length a \<le> m"
    and lb: "case int_max_str_digits py of None \<Rightarrow> True | Some m \<Rightarrow> length b \<le> m"
    by (auto split: option.splits)
  show ?thesis
    by (simp add: parse_rule_range_def sp py_int_digits [OF assms(1,2) la]
        py_int_digits [OF assms(3,4) lb])
qed

lemma py_int_unsigned_rejects:
  assumes "c \<in> set body" and "\<not> py_isdigit c" and "c \<noteq> CHR ''_''"
  shows "py_int_unsigned py body = None"
proof -
  from py_split_covers [OF assms(1,3)] obtain g where
    "g \<in> set (py_split CHR ''_'' body)" "c \<in> set g" by blast
  with assms(2) have "\<not> list_all (\<lambda>g. g \<noteq> [] \<and> list_all py_isdigit g) (py_split CHR ''_'' body)"
    by (auto simp: list_all_iff)
  moreover from assms(1,2) have "\<not> list_all py_isdigit body"
    by (auto simp: list_all_iff)
  ultimately show ?thesis
    by (simp add: py_int_unsigned_def)
qed

lemma py_int_rejects:
  assumes "c \<in> set t" and "\<not> py_isdigit c" and "\<not> py_isspace c"
    and "c \<noteq> CHR ''+''" and "c \<noteq> CHR ''-''" and "c \<noteq> CHR ''_''"
  shows "py_int py t = None"
proof (cases "py_strip t")
  case Nil
  then show ?thesis by (simp add: py_int_def)
next
  case (Cons x xs)
  from py_strip_keeps [OF assms(1,3)] Cons have m: "c \<in> set (x # xs)" by simp
  show ?thesis
  proof (cases "x = CHR ''-'' \<or> x = CHR ''+''")
    case True
    with m assms(4,5) have "c \<in> set xs" by auto
    from py_int_unsigned_rejects [OF this assms(2,6)] True Cons show ?thesis
      by (auto simp: py_int_def)
  next
    case False
    from py_int_unsigned_rejects [OF m assms(2,6)] False Cons show ?thesis
      by (simp add: py_int_def)
  qed
qed

lemma take_drop_clamp:
  "take (min h (length xs) - min l (length xs)) (drop (min l (length xs)) xs) =
   take (h - l) (drop l xs)"
proof (cases "l \<le> length xs")
  case True
  show ?thesis
  proof (cases "h \<le> length xs")
    case True
    with \<open>l \<le> length xs\<close> show ?thesis by (simp add: min_def)
  next
    case False
    then have "length (drop l xs) \<le> h - l" "length (drop l xs) \<le> length xs - l" by auto
    then have "take (h - l) (drop l xs) = drop l xs" "take (length xs - l) (drop l xs) = drop l xs"
      by (simp_all only: take_all)
    with False True show ?thesis by (simp add: min_def)
  qed
next
  case False
  then show ?thesis by (simp add: min_def)
qed

lemma py_slice_take_drop:
  assumes "0 \<le> s" and "0 \<le> e"
  shows "py_slice xs (s - 1) e =
     (if s = 0 then (if int (length xs) \<le> e then drop (length xs - 1) xs else [])
      else take (nat e - (nat s - 1)) (drop (nat s - 1) xs))"
proof (cases "s = 0")
  case True
  have l: "slice_bound (length xs) (- 1) = length xs - 1"
    by (auto simp: slice_bound_def)
  have h: "slice_bound (length xs) e = min (nat e) (length xs)"
    using assms(2) by (simp add: slice_bound_def)
  show ?thesis
    using True assms(2) by (auto simp: py_slice_def Let_def l h min_def)
next
  case False
  with assms(1) have l: "slice_bound (length xs) (s - 1) = min (nat s - 1) (length xs)"
    by (auto simp: slice_bound_def nat_diff_distrib)
  have h: "slice_bound (length xs) e = min (nat e) (length xs)"
    using assms(2) by (simp add: slice_bound_def)
  have "take (min (nat e) (length xs) - min (nat s - 1) (length xs)) (drop (min (nat s - 1) (length xs)) xs)
      = take (nat e - (nat s - 1)) (drop (nat s - 1) xs)"
    by (rule take_drop_clamp)
  with False show ?thesis
    by (simp add: py_slice_def Let_def l h)
qed

lemma filter_less_upt: "filter (\<lambda>i. i < k) [a ..< b] = [a ..< min b k]"
proof (induction b)
  case 0
  then show ?case by simp
next
  case (Suc b)
  consider "b < a" | "a \<le> b" "b < k" | "a \<le> b" "k \<le> b" by linarith
  then show ?case
  proof cases
    case 1
    then show ?thesis by simp
  next
    case 2
    then have "min (Suc b) k = Suc b" "min b k = b" by auto
    with 2 Suc show ?thesis by simp
  next
    case 3
    then have "min (Suc b) k = k" "min b k = k" by auto
    with 3 Suc show ?thesis by simp
  qed
qed

lemma py_slice_positions:
  assumes "1 \<le> s"
  shows "py_slice xs (int s - 1) (int e) = rules_in_positions xs s e"
proof -
  define n where "n = length xs"
  define m where "m = min e n"
  have f: "filter (\<lambda>i. 1 \<le> i \<and> i \<le> n) [s ..< Suc e] = [s ..< Suc m]"
  proof -
    have "filter (\<lambda>i. 1 \<le> i \<and> i \<le> n) [s ..< Suc e] = filter (\<lambda>i. i < Suc n) [s ..< Suc e]"
      using assms by (intro filter_cong) auto
    also have "\<dots> = [s ..< Suc m]"
      unfolding m_def filter_less_upt by simp
    finally show ?thesis .
  qed
  have l: "slice_bound n (int s - 1) = min (s - 1) n"
    using assms by (auto simp: slice_bound_def)
  have h: "slice_bound n (int e) = m"
    by (auto simp: slice_bound_def m_def)
  have "take (m - min (s - 1) n) (drop (min (s - 1) n) xs) = map (\<lambda>i. xs ! (i - 1)) [s ..< Suc m]"
  proof (rule nth_equalityI)
    show "length (take (m - min (s - 1) n) (drop (min (s - 1) n) xs)) =
          length (map (\<lambda>i. xs ! (i - 1)) [s ..< Suc m])"
      using assms by (auto simp: m_def n_def min_def simp del: upt_Suc)
  next
    fix i assume "i < length (take (m - min (s - 1) n) (drop (min (s - 1) n) xs))"
    then have i: "i < m - (s - 1)" "s - 1 \<le> n" "s - 1 + i < n"
      by (auto simp: m_def n_def min_def split: if_splits)
    then show "take (m - min (s - 1) n) (drop (min (s - 1) n) xs) ! i =
          map (\<lambda>i. xs ! (i - 1)) [s ..< Suc m] ! i"
      using assms by (auto simp: n_def min_def simp del: upt_Suc)
  qed
  then show ?thesis
    unfolding py_slice_def rules_in_positions_def Let_def n_def [symmetric] f l h .
qed

lemma nat_check_expand_None: "nat_check_expand xs = None \<longleftrightarrow> set xs \<subseteq> set expands"
  by (induction xs) auto

lemma exec_module_policy_resolved:
  assumes "set (nat_expand p) \<subseteq> {''sources'', ''destinations'', ''services''}"
    and "search_FirewallPolicy smc (nat_filter p) = Inr [policy]"
  shows "FirewallNATRuleFacts_exec_module smc p =
     (case select_rules (python smc) p policy of
        (calls, Inl f) \<Rightarrow> (Search_by_type ''fw_policy'' (nat_filter p) # calls, Inl f)
      | (calls, Inr result) \<Rightarrow>
          (Search_by_type ''fw_policy'' (nat_filter p) # calls,
           Inr [\<lparr>fr_policy = policy_name policy, fr_rules = render_rules p result\<rparr>]))"
proof -
  from assms(1) have "nat_check_expand (nat_expand p) = None"
    by (simp add: nat_check_expand_None set_expands)
  with assms(2) show ?thesis
    by (simp add: FirewallNATRuleFacts_exec_module_def)
qed

lemma exec_module_range_unparsed_fails:
  assumes "nat_search p = None" "nat_rule_range p = Some r" "r \<noteq> []" "parse_rule_range (python smc) r = None"
  shows "\<exists>calls f. FirewallNATRuleFacts_exec_module smc p = (calls, Inl f)"
proof -
  from assms have sel: "select_rules (python smc) p pol = ([], Inl (Fail_json (rule_range_error r)))" for pol
    by (simp add: select_rules_def)
  show ?thesis
    unfolding FirewallNATRuleFacts_exec_module_def
    by (auto simp: sel Let_def split: option.splits sum.splits)
qed

text \<open>
  Claim C7. A non-empty \<open>rule_range\<close> of ASCII characters with a token that \<open>int\<close>
  rejects never yields a result: the run ends in a failure whatever the server holds.
  Every token with a character that is no decimal digit, no whitespace, no sign and no
  underscore is such a token, whatever the interpreter. When the expand list is valid
  and the policy resolves to one match, the failure is the value-format message, which
  ends with the offending range.
\<close>

theorem non_numeric_rule_range_fails:
  assumes "nat_search p = None" and "nat_rule_range p = Some r" and "r \<noteq> []"
    and "py_ascii r"
    and "t \<in> set (py_split CHR ''-'' r)"
    and "py_int (python smc) t = None \<or>
         (\<exists>c \<in> set t. \<not> py_isdigit c \<and> \<not> py_isspace c \<and> c \<noteq> CHR ''+'' \<and> c \<noteq> CHR ''_'')"
  shows "(\<exists>calls f. FirewallNATRuleFacts_exec_module smc p = (calls, Inl f)) \<and>
         (set (nat_expand p) \<subseteq> {''sources'', ''destinations'', ''services''} \<and>
          search_FirewallPolicy smc (nat_filter p) = Inr [policy] \<longrightarrow>
          FirewallNATRuleFacts_exec_module smc p =
            ([Search_by_type ''fw_policy'' (nat_filter p)],
             Inl (Fail_json (''Value of rule range was invalid. Rule ranges must be a string with numeric only values, got: '' @ r))))"
proof -
  have rejected: "py_int (python smc) t = None"
  proof -
    have "py_int (python smc) t = None"
      if "c \<in> set t" "\<not> py_isdigit c" "\<not> py_isspace c" "c \<noteq> CHR ''+''" "c \<noteq> CHR ''_''" for c
    proof -
      from py_split_no_sep [OF assms(5)] that(1) have "c \<noteq> CHR ''-''" by auto
      from py_int_rejects [OF that(1,2,3,4) this that(5)] show ?thesis .
    qed
    with assms(6) show ?thesis by blast
  qed
  have np: "parse_rule_range (python smc) r = None"
  proof (cases "parse_rule_range (python smc) r")
    case None
    then show ?thesis .
  next
    case (Some se)
    from parse_rule_range_tokens [OF Some assms(5)] rejected show ?thesis by simp
  qed
  from assms(1-3) np have sel: "select_rules (python smc) p policy = ([], Inl (Fail_json (rule_range_error r)))"
    by (simp add: select_rules_def)
  show ?thesis
  proof (intro conjI impI)
    show "\<exists>calls f. FirewallNATRuleFacts_exec_module smc p = (calls, Inl f)"
      by (rule exec_module_range_unparsed_fails [OF assms(1-3) np])
  next
    assume "set (nat_expand p) \<subseteq> {''sources'', ''destinations'', ''services''} \<and>
          search_FirewallPolicy smc (nat_filter p) = Inr [policy]"
    then show "FirewallNATRuleFacts_exec_module smc p =
            ([Search_by_type ''fw_policy'' (nat_filter p)],
             Inl (Fail_json (''Value of rule range was invalid. Rule ranges must be a string with numeric only values, got: '' @ r)))"
      by (simp add: exec_module_policy_resolved [of p smc policy] sel rule_range_error_def)
  qed
qed

theorem non_numeric_rule_range_fails_witness:
  "FirewallNATRuleFacts_exec_module server3 (range_query ''a-b'') =
     ([Search_by_type ''fw_policy'' ''TestPolicy''],
      Inl (Fail_json ''Value of rule range was invalid. Rule ranges must be a string with numeric only values, got: a-b''))"
proof -
  have h1: "nat_search (range_query ''a-b'') = None"
    and h2: "nat_rule_range (range_query ''a-b'') = Some ''a-b''"
    and h3: "''a-b'' \<noteq> []"
    and h4: "py_ascii ''a-b''"
    and h5: "''a'' \<in> set (py_split CHR ''-'' ''a-b'')"
    by (simp_all add: range_query_def py_ascii_def)
  have h6: "py_int (python server3) ''a'' = None \<or>
         (\<exists>c \<in> set ''a''. \<not> py_isdigit c \<and> \<not> py_isspace c \<and> c \<noteq> CHR ''+'' \<and> c \<noteq> CHR ''_'')"
    by (simp add: py_isdigit_def py_isspace_def)
  from non_numeric_rule_range_fails [OF h1 h2 h3 h4 h5 h6, of policy3]
  show ?thesis
    by (simp add: range_query_def server3_def)
qed

lemma select_rules_range:
  assumes "nat_search p = None" "nat_rule_range p = Some r" "parse_rule_range py r = Some (s, e)"
  shows "select_rules py p policy =
           ([Policy_fw_ipv4_nat_rules (policy_name policy)],
            Inr (py_slice (fw_ipv4_nat_rules policy) (s - 1) e))"
proof -
  from assms(3) have "r \<noteq> []"
    by (auto simp: parse_rule_range_def split: option.splits)
  with assms show ?thesis
    by (simp add: select_rules_def)
qed

lemma digits_value_nonneg: "list_all py_isdigit a \<Longrightarrow> 0 \<le> digits_value a"
  unfolding digits_value_def by (rule digits_value_nonneg_aux) simp_all

lemma render_rules_selected:
  assumes "str_truthy (nat_search p) \<or> str_truthy (nat_rule_range p)"
  shows "render_rules p xs =
     (if nat_as_yaml p then map (\<lambda>rule. Rule_yaml rule (nat_expand p))
      else map (\<lambda>rule. Rule_entry (rule_name rule) (rule_typeof rule) None))
       (filter (\<lambda>rule. rule_typeof rule = ''fw_ipv4_nat_rule'') xs)"
  using assms by (simp add: render_rules_def nat_rule_type_def)

text \<open>
  The range path for any range string that parses: no check compares the start, the
  end and the number of rules, and the slice \<open>[start-1:end]\<close> is rendered.
\<close>

lemma exec_module_range_slice:
  assumes "set (nat_expand p) \<subseteq> {''sources'', ''destinations'', ''services''}"
    and "search_FirewallPolicy smc (nat_filter p) = Inr [policy]"
    and "nat_search p = None" and "nat_rule_range p = Some r"
    and "parse_rule_range (python smc) r = Some (s, e)"
  shows "FirewallNATRuleFacts_exec_module smc p =
           ([Search_by_type ''fw_policy'' (nat_filter p),
             Policy_fw_ipv4_nat_rules (policy_name policy)],
            Inr [\<lparr>fr_policy = policy_name policy,
                  fr_rules = render_rules p (py_slice (fw_ipv4_nat_rules policy) (s - 1) e)\<rparr>])"
  by (simp add: exec_module_policy_resolved [OF assms(1,2)] select_rules_range [OF assms(3-5)])

text \<open>
  Claim C10, as amended. A range \<open>a-b\<close> of two non-empty runs of decimal digits
  (within the digit limit of the interpreter, if it has one), read as the numbers \<open>s\<close>
  and \<open>e\<close>, never fails. The module looks the policy up, reads its NAT rules and
  returns the rules at the 0-based indices \<open>s - 1 \<le> i < e\<close> that the list has: what is
  left after dropping \<open>s - 1\<close> rules, cut to \<open>e - (s - 1)\<close> rules. That is the empty
  list when the start exceeds the end or lies beyond the number of rules. For \<open>s = 0\<close>
  the lower bound of the slice is \<open>-1\<close>, the last index: the result is the last rule
  when \<open>e\<close> reaches the end of the list, and empty otherwise.
\<close>

theorem reversed_or_out_of_bounds_rule_range_succeeds:
  assumes "set (nat_expand p) \<subseteq> {''sources'', ''destinations'', ''services''}"
    and "search_FirewallPolicy smc (nat_filter p) = Inr [policy]"
    and "nat_search p = None" and "nat_rule_range p = Some (a @ ''-'' @ b)"
    and "a \<noteq> []" and "list_all py_isdigit a" and "b \<noteq> []" and "list_all py_isdigit b"
    and "case int_max_str_digits (python smc) of
           None \<Rightarrow> True | Some m \<Rightarrow> length a \<le> m \<and> length b \<le> m"
    and "s = nat (digits_value a)" and "e = nat (digits_value b)"
  shows "FirewallNATRuleFacts_exec_module smc p =
           ([Search_by_type ''fw_policy'' (nat_filter p),
             Policy_fw_ipv4_nat_rules (policy_name policy)],
            Inr [\<lparr>fr_policy = policy_name policy,
                  fr_rules =
                    (if nat_as_yaml p then map (\<lambda>rule. Rule_yaml rule (nat_expand p))
                     else map (\<lambda>rule. Rule_entry (rule_name rule) (rule_typeof rule) None))
                      (filter (\<lambda>rule. rule_typeof rule = ''fw_ipv4_nat_rule'')
                        (if s = 0
                         then (if length (fw_ipv4_nat_rules policy) \<le> e
                               then drop (length (fw_ipv4_nat_rules policy) - 1)
                                      (fw_ipv4_nat_rules policy)
                               else [])
                         else take (e - (s - 1)) (drop (s - 1) (fw_ipv4_nat_rules policy))))\<rparr>])
         \<and> (e < s \<or> length (fw_ipv4_nat_rules policy) < s \<longrightarrow>
              FirewallNATRuleFacts_exec_module smc p =
                ([Search_by_type ''fw_policy'' (nat_filter p),
                  Policy_fw_ipv4_nat_rules (policy_name policy)],
                 Inr [\<lparr>fr_policy = policy_name policy, fr_rules = []\<rparr>]))"
proof -
  define rules where "rules = fw_ipv4_nat_rules policy"
  have parsed: "parse_rule_range (python smc) (a @ ''-'' @ b) = Some (digits_value a, digits_value b)"
    by (rule parse_rule_range_digits [OF assms(5-9)])
  have nn: "0 \<le> digits_value a" "0 \<le> digits_value b"
    using assms(6,8) by (simp_all add: digits_value_nonneg)
  have truthy: "str_truthy (nat_search p) \<or> str_truthy (nat_rule_range p)"
    using assms(4) by simp
  have slice: "py_slice rules (digits_value a - 1) (digits_value b) =
      (if s = 0 then (if length rules \<le> e then drop (length rules - 1) rules else [])
       else take (e - (s - 1)) (drop (s - 1) rules))"
    unfolding py_slice_take_drop [OF nn] assms(10,11) using nn by auto
  have run: "FirewallNATRuleFacts_exec_module smc p =
           ([Search_by_type ''fw_policy'' (nat_filter p),
             Policy_fw_ipv4_nat_rules (policy_name policy)],
            Inr [\<lparr>fr_policy = policy_name policy,
                  fr_rules =
                    (if nat_as_yaml p then map (\<lambda>rule. Rule_yaml rule (nat_expand p))
                     else map (\<lambda>rule. Rule_entry (rule_name rule) (rule_typeof rule) None))
                      (filter (\<lambda>rule. rule_typeof rule = ''fw_ipv4_nat_rule'')
                        (if s = 0 then (if length rules \<le> e then drop (length rules - 1) rules else [])
                         else take (e - (s - 1)) (drop (s - 1) rules)))\<rparr>])"
    unfolding exec_module_range_slice [OF assms(1-4) parsed] render_rules_selected [OF truthy]
      rules_def [symmetric] slice ..
  have empty: "(if s = 0 then (if length rules \<le> e then drop (length rules - 1) rules else [])
       else take (e - (s - 1)) (drop (s - 1) rules)) = []"
    if "e < s \<or> length rules < s"
    using that by auto
  show ?thesis
  proof (intro conjI impI)
    from run show "FirewallNATRuleFacts_exec_module smc p =
           ([Search_by_type ''fw_policy'' (nat_filter p),
             Policy_fw_ipv4_nat_rules (policy_name policy)],
            Inr [\<lparr>fr_policy = policy_name policy,
                  fr_rules =
                    (if nat_as_yaml p then map (\<lambda>rule. Rule_yaml rule (nat_expand p))
                     else map (\<lambda>rule. Rule_entry (rule_name rule) (rule_typeof rule) None))
                      (filter (\<lambda>rule. rule_typeof rule = ''fw_ipv4_nat_rule'')
                        (if s = 0
                         then (if length (fw_ipv4_nat_rules policy) \<le> e
                               then drop (length (fw_ipv4_nat_rules policy) - 1)
                                      (fw_ipv4_nat_rules policy)
                               else [])
                         else take (e - (s - 1)) (drop (s - 1) (fw_ipv4_nat_rules policy))))\<rparr>])"
      unfolding rules_def .
  next
    assume "e < s \<or> length (fw_ipv4_nat_rules policy) < s"
    then have "e < s \<or> length rules < s" by (simp add: rules_def)
    from run empty [OF this]
    show "FirewallNATRuleFacts_exec_module smc p =
                ([Search_by_type ''fw_policy'' (nat_filter p),
                  Policy_fw_ipv4_nat_rules (policy_name policy)],
                 Inr [\<lparr>fr_policy = policy_name policy, fr_rules = []\<rparr>])"
      by simp
  qed
qed

lemma digits_value_examples:
  "digits_value ''0'' = 0" "digits_value ''1'' = 1" "digits_value ''2'' = 2"
  "digits_value ''3'' = 3" "digits_value ''10'' = 10"
  by (simp_all add: digits_value_def)

lemma digit_examples:
  "list_all py_isdigit ''0''" "list_all py_isdigit ''1''" "list_all py_isdigit ''2''"
  "list_all py_isdigit ''3''" "list_all py_isdigit ''10''"
  by (simp_all add: py_isdigit_def)

lemma server3_digit_limit:
  "length a \<le> 4300 \<Longrightarrow> length b \<le> 4300 \<Longrightarrow>
   (case int_max_str_digits (python server3) of
      None \<Rightarrow> True | Some m \<Rightarrow> length a \<le> m \<and> length b \<le> m)"
  by (simp add: server3_def cpython_def)

lemma server3_finds_policy3:
  "set (nat_expand (range_query r)) \<subseteq> {''sources'', ''destinations'', ''services''}"
  "search_FirewallPolicy server3 (nat_filter (range_query r)) = Inr [policy3]"
  "nat_search (range_query r) = None"
  "nat_rule_range (range_query r) = Some r"
  "\<not> nat_as_yaml (range_query r)"
  by (simp_all add: range_query_def server3_def)

theorem reversed_or_out_of_bounds_rule_range_succeeds_witness:
  "FirewallNATRuleFacts_exec_module server3 (range_query ''3-1'') =
     ([Search_by_type ''fw_policy'' ''TestPolicy'', Policy_fw_ipv4_nat_rules ''TestPolicy''],
      Inr [\<lparr>fr_policy = ''TestPolicy'', fr_rules = []\<rparr>])
   \<and> FirewallNATRuleFacts_exec_module server3 (range_query ''2-10'') =
     ([Search_by_type ''fw_policy'' ''TestPolicy'', Policy_fw_ipv4_nat_rules ''TestPolicy''],
      Inr [\<lparr>fr_policy = ''TestPolicy'',
            fr_rules = [Rule_entry ''R2'' ''fw_ipv4_nat_rule'' None,
                        Rule_entry ''R3'' ''fw_ipv4_nat_rule'' None]\<rparr>])"
proof -
  have r31: "nat_rule_range (range_query ''3-1'') = Some (''3'' @ ''-'' @ ''1'')"
    and r210: "nat_rule_range (range_query ''2-10'') = Some (''2'' @ ''-'' @ ''10'')"
    by (simp_all add: range_query_def)
  have "FirewallNATRuleFacts_exec_module server3 (range_query ''3-1'') =
     ([Search_by_type ''fw_policy'' ''TestPolicy'', Policy_fw_ipv4_nat_rules ''TestPolicy''],
      Inr [\<lparr>fr_policy = ''TestPolicy'', fr_rules = []\<rparr>])"
    using reversed_or_out_of_bounds_rule_range_succeeds
      [OF server3_finds_policy3(1,2,3) r31 _ digit_examples(4) _ digit_examples(2)
          server3_digit_limit refl refl]
    by (simp add: digits_value_examples range_query_def policy3_def)
  moreover have "FirewallNATRuleFacts_exec_module server3 (range_query ''2-10'') =
     ([Search_by_type ''fw_policy'' ''TestPolicy'', Policy_fw_ipv4_nat_rules ''TestPolicy''],
      Inr [\<lparr>fr_policy = ''TestPolicy'',
            fr_rules = [Rule_entry ''R2'' ''fw_ipv4_nat_rule'' None,
                        Rule_entry ''R3'' ''fw_ipv4_nat_rule'' None]\<rparr>])"
    using reversed_or_out_of_bounds_rule_range_succeeds
      [OF server3_finds_policy3(1,2,3) r210 _ digit_examples(3) _ digit_examples(5)
          server3_digit_limit refl refl]
    by (simp add: digits_value_examples range_query_def policy3_def)
  ultimately show ?thesis by simp
qed

text \<open>
  The specification sets no bound on the length of the two numbers. An interpreter
  with a digit limit (4300 by default from CPython 3.11) converts no longer number:
  \<open>int\<close> raises \<open>ValueError\<close> and the query fails with the value-format message. Here
  the end is a run of 4301 digits, and so lies beyond the three rules.
\<close>

theorem rule_range_over_digit_limit_counterexample:
  "FirewallNATRuleFacts_exec_module server3 (range_query (''1-'' @ replicate 4301 CHR ''9'')) =
     ([Search_by_type ''fw_policy'' ''TestPolicy''],
      Inl (Fail_json (''Value of rule range was invalid. Rule ranges must be a string with numeric only values, got: 1-'' @
                      replicate 4301 CHR ''9'')))"
proof -
  define nines where "nines = replicate 4301 CHR ''9''"
  have digits: "list_all py_isdigit nines"
    by (simp add: nines_def list_all_iff py_isdigit_def)
  have "py_int (python server3) nines = None"
    by (rule py_int_over_limit [OF digits, of _ 4300]) (simp_all add: server3_def cpython_def nines_def)
  moreover have "CHR ''-'' \<notin> set nines"
    by (simp add: nines_def)
  then have "py_split CHR ''-'' (''1-'' @ nines) = [''1'', nines]"
    by (simp add: py_split_without_sep)
  ultimately have np: "parse_rule_range (python server3) (''1-'' @ nines) = None"
    by (simp add: parse_rule_range_def split: option.splits)
  have sel: "select_rules (python server3) (range_query (''1-'' @ nines)) policy3 =
      ([], Inl (Fail_json (rule_range_error (''1-'' @ nines))))"
    using np by (simp add: select_rules_def range_query_def)
  show ?thesis
    unfolding nines_def [symmetric] exec_module_policy_resolved [OF server3_finds_policy3(1,2)] sel
    by (simp add: rule_range_error_def range_query_def)
qed

lemma map_zip_positions:
  "map (\<lambda>(num, x). f num x) (zip [1 ..< Suc (length xs)] xs) =
   map (\<lambda>i. f i (xs ! (i - 1))) [1 ..< Suc (length xs)]"
  by (rule nth_equalityI) (auto simp del: upt_Suc)

lemma render_rules_full:
  assumes "\<not> str_truthy (nat_search p)" "\<not> str_truthy (nat_rule_range p)" "\<not> nat_as_yaml p"
  shows "render_rules p xs =
     map (\<lambda>i. Rule_entry (rule_name (xs ! (i - 1))) (rule_typeof (xs ! (i - 1))) (Some i))
       [1 ..< Suc (length xs)]"
proof -
  have "render_rules p xs =
      map (\<lambda>(num, rule). Rule_entry (rule_name rule) (rule_typeof rule) (Some num))
        (zip [1 ..< Suc (length xs)] xs)"
    unfolding render_rules_def using assms by (simp only: if_False simp_thms)
  then show ?thesis
    by (simp only: map_zip_positions
          [of "\<lambda>num rule. Rule_entry (rule_name rule) (rule_typeof rule) (Some num)"])
qed

lemma render_rules_no_pos:
  assumes "str_truthy (nat_search p) \<or> str_truthy (nat_rule_range p)"
  shows "\<forall>x \<in> set (render_rules p xs). \<not> has_pos x"
  using assms by (auto simp: render_rules_def)

lemma render_rules_range:
  assumes "str_truthy (nat_rule_range p)" "\<not> nat_as_yaml p"
    and "\<forall>rule \<in> set xs. rule_typeof rule = nat_rule_type"
  shows "render_rules p xs = map (\<lambda>rule. Rule_entry (rule_name rule) (rule_typeof rule) None) xs"
proof -
  from assms(3) have "filter (\<lambda>rule. rule_typeof rule = nat_rule_type) xs = xs"
    by (simp add: filter_id_conv)
  with assms(1,2) show ?thesis
    by (simp add: render_rules_def)
qed

lemma set_rules_in_positions: "set (rules_in_positions xs s e) \<subseteq> set xs"
  by (auto simp: rules_in_positions_def)

lemma exec_module_range_positions:
  assumes "set (nat_expand p) \<subseteq> {''sources'', ''destinations'', ''services''}"
    and "search_FirewallPolicy smc (nat_filter p) = Inr [policy]"
    and "\<forall>rule \<in> set (fw_ipv4_nat_rules policy). rule_typeof rule = nat_rule_type"
    and "nat_search p = None" and "nat_rule_range p = Some r"
    and "parse_rule_range (python smc) r = Some (int s, int e)" and "1 \<le> s" and "\<not> nat_as_yaml p"
  shows "snd (FirewallNATRuleFacts_exec_module smc p) =
              Inr [\<lparr>fr_policy = policy_name policy,
                    fr_rules = map (\<lambda>rule. Rule_entry (rule_name rule) (rule_typeof rule) None)
                                 (rules_in_positions (fw_ipv4_nat_rules policy) s e)\<rparr>]"
proof -
  have sel: "select_rules (python smc) p policy =
           ([Policy_fw_ipv4_nat_rules (policy_name policy)],
            Inr (py_slice (fw_ipv4_nat_rules policy) (int s - 1) (int e)))"
    by (rule select_rules_range [OF assms(4,5,6)])
  from assms(6) have "r \<noteq> []"
    by (auto simp: parse_rule_range_def split: option.splits)
  with assms(5) have t: "str_truthy (nat_rule_range p)" by simp
  have pos: "py_slice (fw_ipv4_nat_rules policy) (int s - 1) (int e) =
      rules_in_positions (fw_ipv4_nat_rules policy) s e"
    by (rule py_slice_positions [OF assms(7)])
  have "\<forall>rule \<in> set (rules_in_positions (fw_ipv4_nat_rules policy) s e). rule_typeof rule = nat_rule_type"
    using assms(3) set_rules_in_positions [of "fw_ipv4_nat_rules policy" s e] by (auto simp: subset_iff)
  from render_rules_range [OF t assms(8) this]
  have ren: "render_rules p (rules_in_positions (fw_ipv4_nat_rules policy) s e) =
      map (\<lambda>rule. Rule_entry (rule_name rule) (rule_typeof rule) None)
         (rules_in_positions (fw_ipv4_nat_rules policy) s e)" .
  show ?thesis
    unfolding exec_module_policy_resolved [OF assms(1,2)] sel pos
    by (simp add: ren)
qed

lemma exec_module_no_pos:
  assumes "set (nat_expand p) \<subseteq> {''sources'', ''destinations'', ''services''}"
    and "search_FirewallPolicy smc (nat_filter p) = Inr [policy]"
    and "str_truthy (nat_search p) \<or> str_truthy (nat_rule_range p)"
    and "snd (FirewallNATRuleFacts_exec_module smc p) = Inr res"
  shows "\<forall>fr \<in> set res. \<forall>x \<in> set (fr_rules fr). \<not> has_pos x"
proof -
  obtain calls out where sel: "select_rules (python smc) p policy = (calls, out)"
    by (cases "select_rules (python smc) p policy")
  show ?thesis
  proof (cases out)
    case (Inl f)
    with assms(4) sel show ?thesis
      by (simp add: exec_module_policy_resolved [OF assms(1,2)])
  next
    case (Inr result)
    with assms(4) sel have "res = [\<lparr>fr_policy = policy_name policy, fr_rules = render_rules p result\<rparr>]"
      by (simp add: exec_module_policy_resolved [OF assms(1,2)])
    with render_rules_no_pos [OF assms(3), of result] show ?thesis
      by simp
  qed
qed

lemma exec_module_full_positions:
  assumes "set (nat_expand p) \<subseteq> {''sources'', ''destinations'', ''services''}"
    and "search_FirewallPolicy smc (nat_filter p) = Inr [policy]"
    and "\<not> str_truthy (nat_search p)" and "\<not> str_truthy (nat_rule_range p)" and "\<not> nat_as_yaml p"
  shows "snd (FirewallNATRuleFacts_exec_module smc p) =
              Inr [\<lparr>fr_policy = policy_name policy,
                    fr_rules = map (\<lambda>i. Rule_entry (rule_name (fw_ipv4_nat_rules policy ! (i - 1)))
                                          (rule_typeof (fw_ipv4_nat_rules policy ! (i - 1))) (Some i))
                                 [1 ..< Suc (length (fw_ipv4_nat_rules policy))]\<rparr>]"
proof -
  from assms(3,4) have sel: "select_rules (python smc) p policy =
      ([Policy_fw_ipv4_nat_rules (policy_name policy)], Inr (fw_ipv4_nat_rules policy))"
    by (simp add: select_rules_def)
  show ?thesis
    unfolding exec_module_policy_resolved [OF assms(1,2)] sel
      render_rules_full [OF assms(3,4,5)]
    by (simp del: upt_Suc)
qed

text \<open>
  Claim C4, as amended. For a policy whose NAT rule list holds NAT rules, a range
  \<open>a-b\<close> of two non-empty runs of decimal digits (within the digit limit of the
  interpreter, if it has one) whose start is at least 1 returns exactly the rules in the
  1-based inclusive positions \<open>a\<close> through \<open>b\<close>, as compact records; every record
  returned on the search and range paths is without the \<open>pos\<close> key; and the unfiltered
  compact query returns each rule with \<open>pos\<close> equal to its 1-based index.
\<close>

theorem rule_range_selects_positions:
  assumes "set (nat_expand p) \<subseteq> {''sources'', ''destinations'', ''services''}"
    and "search_FirewallPolicy smc (nat_filter p) = Inr [policy]"
    and "\<forall>rule \<in> set (fw_ipv4_nat_rules policy). rule_typeof rule = nat_rule_type"
  shows "(nat_search p = None \<and> nat_rule_range p = Some (a @ ''-'' @ b) \<and>
          a \<noteq> [] \<and> list_all py_isdigit a \<and> b \<noteq> [] \<and> list_all py_isdigit b \<and>
          (case int_max_str_digits (python smc) of
             None \<Rightarrow> True | Some m \<Rightarrow> length a \<le> m \<and> length b \<le> m) \<and>
          1 \<le> digits_value a \<and> \<not> nat_as_yaml p \<longrightarrow>
            snd (FirewallNATRuleFacts_exec_module smc p) =
              Inr [\<lparr>fr_policy = policy_name policy,
                    fr_rules = map (\<lambda>rule. Rule_entry (rule_name rule) (rule_typeof rule) None)
                                 (rules_in_positions (fw_ipv4_nat_rules policy)
                                    (nat (digits_value a)) (nat (digits_value b)))\<rparr>])
       \<and> (str_truthy (nat_search p) \<or> str_truthy (nat_rule_range p) \<longrightarrow>
            (\<forall>res. snd (FirewallNATRuleFacts_exec_module smc p) = Inr res \<longrightarrow>
               (\<forall>fr \<in> set res. \<forall>x \<in> set (fr_rules fr). \<not> has_pos x)))
       \<and> (\<not> str_truthy (nat_search p) \<and> \<not> str_truthy (nat_rule_range p) \<and> \<not> nat_as_yaml p \<longrightarrow>
            snd (FirewallNATRuleFacts_exec_module smc p) =
              Inr [\<lparr>fr_policy = policy_name policy,
                    fr_rules = map (\<lambda>i. Rule_entry (rule_name (fw_ipv4_nat_rules policy ! (i - 1)))
                                          (rule_typeof (fw_ipv4_nat_rules policy ! (i - 1))) (Some i))
                                 [1 ..< Suc (length (fw_ipv4_nat_rules policy))]\<rparr>])"
proof -
  have one: "snd (FirewallNATRuleFacts_exec_module smc p) =
              Inr [\<lparr>fr_policy = policy_name policy,
                    fr_rules = map (\<lambda>rule. Rule_entry (rule_name rule) (rule_typeof rule) None)
                                 (rules_in_positions (fw_ipv4_nat_rules policy)
                                    (nat (digits_value a)) (nat (digits_value b)))\<rparr>]"
    if r: "nat_search p = None" "nat_rule_range p = Some (a @ ''-'' @ b)"
      and d: "a \<noteq> []" "list_all py_isdigit a" "b \<noteq> []" "list_all py_isdigit b"
        "case int_max_str_digits (python smc) of
           None \<Rightarrow> True | Some m \<Rightarrow> length a \<le> m \<and> length b \<le> m"
      and s: "1 \<le> digits_value a" and y: "\<not> nat_as_yaml p"
  proof -
    from d(4) have "0 \<le> digits_value b" by (rule digits_value_nonneg)
    with s parse_rule_range_digits [OF d]
    have parsed: "parse_rule_range (python smc) (a @ ''-'' @ b) =
        Some (int (nat (digits_value a)), int (nat (digits_value b)))"
      by simp
    from s have "1 \<le> nat (digits_value a)" by simp
    from exec_module_range_positions [OF assms r parsed this y] show ?thesis .
  qed
  have two: "\<forall>fr \<in> set res. \<forall>x \<in> set (fr_rules fr). \<not> has_pos x"
    if "str_truthy (nat_search p) \<or> str_truthy (nat_rule_range p)"
      and "snd (FirewallNATRuleFacts_exec_module smc p) = Inr res" for res
    using exec_module_no_pos [OF assms(1,2) that] .
  have three: "snd (FirewallNATRuleFacts_exec_module smc p) =
              Inr [\<lparr>fr_policy = policy_name policy,
                    fr_rules = map (\<lambda>i. Rule_entry (rule_name (fw_ipv4_nat_rules policy ! (i - 1)))
                                          (rule_typeof (fw_ipv4_nat_rules policy ! (i - 1))) (Some i))
                                 [1 ..< Suc (length (fw_ipv4_nat_rules policy))]\<rparr>]"
    if "\<not> str_truthy (nat_search p)" "\<not> str_truthy (nat_rule_range p)" "\<not> nat_as_yaml p"
    using exec_module_full_positions [OF assms(1,2) that] .
  from one two three show ?thesis by blast
qed

lemma rules_in_positions_1_2: "rules_in_positions [a, b, c] (Suc 0) 2 = [a, b]"
  by (simp add: rules_in_positions_def upt_conv_Cons)

theorem rule_range_selects_positions_witness:
  "snd (FirewallNATRuleFacts_exec_module server3 (range_query ''1-2'')) =
     Inr [\<lparr>fr_policy = ''TestPolicy'',
           fr_rules = [Rule_entry ''R1'' ''fw_ipv4_nat_rule'' None,
                       Rule_entry ''R2'' ''fw_ipv4_nat_rule'' None]\<rparr>]
   \<and> snd (FirewallNATRuleFacts_exec_module server3 full_query) =
     Inr [\<lparr>fr_policy = ''TestPolicy'',
           fr_rules = [Rule_entry ''R1'' ''fw_ipv4_nat_rule'' (Some 1),
                       Rule_entry ''R2'' ''fw_ipv4_nat_rule'' (Some 2),
                       Rule_entry ''R3'' ''fw_ipv4_nat_rule'' (Some 3)]\<rparr>]"
proof -
  have nat_typed: "\<forall>rule \<in> set (fw_ipv4_nat_rules policy3). rule_typeof rule = nat_rule_type"
    by (simp add: policy3_def nat_rule_type_def)
  have f1: "set (nat_expand full_query) \<subseteq> {''sources'', ''destinations'', ''services''}"
    by (simp add: full_query_def)
  have f2: "search_FirewallPolicy server3 (nat_filter full_query) = Inr [policy3]"
    by (simp add: full_query_def server3_def)
  have "snd (FirewallNATRuleFacts_exec_module server3 (range_query ''1-2'')) =
     Inr [\<lparr>fr_policy = ''TestPolicy'',
           fr_rules = [Rule_entry ''R1'' ''fw_ipv4_nat_rule'' None,
                       Rule_entry ''R2'' ''fw_ipv4_nat_rule'' None]\<rparr>]"
    using rule_range_selects_positions [OF server3_finds_policy3(1,2) nat_typed,
        where a = "''1''" and b = "''2''"]
    by (simp add: range_query_def server3_def cpython_def py_isdigit_def digits_value_examples
        policy3_def rules_in_positions_1_2)
  moreover have "snd (FirewallNATRuleFacts_exec_module server3 full_query) =
     Inr [\<lparr>fr_policy = ''TestPolicy'',
           fr_rules = [Rule_entry ''R1'' ''fw_ipv4_nat_rule'' (Some 1),
                       Rule_entry ''R2'' ''fw_ipv4_nat_rule'' (Some 2),
                       Rule_entry ''R3'' ''fw_ipv4_nat_rule'' (Some 3)]\<rparr>]"
    using rule_range_selects_positions [OF f1 f2 nat_typed]
    by (simp add: full_query_def policy3_def)
  ultimately show ?thesis by simp
qed

text \<open>
  The specification sets no lower bound on the start. A start of 0 is a well-formed
  number but no 1-based position: the lower bound of the slice is then \<open>-1\<close>, which
  counts from the end. Over the three rules, \<open>0-3\<close> returns the last rule only, where
  the positions 0 through 3 that the list has are all three rules.
\<close>

theorem rule_range_from_zero_counterexample:
  "snd (FirewallNATRuleFacts_exec_module server3 (range_query ''0-3'')) =
     Inr [\<lparr>fr_policy = ''TestPolicy'',
           fr_rules = [Rule_entry ''R3'' ''fw_ipv4_nat_rule'' None]\<rparr>]
   \<and> map rule_name (rules_in_positions (fw_ipv4_nat_rules policy3) 0 3) = [''R1'', ''R2'', ''R3'']"
proof -
  have r03: "nat_rule_range (range_query ''0-3'') = Some (''0'' @ ''-'' @ ''3'')"
    by (simp add: range_query_def)
  have parsed: "parse_rule_range (python server3) (''0'' @ ''-'' @ ''3'') = Some (0, 3)"
    using parse_rule_range_digits [of "''0''" "''3''" "python server3"]
    by (simp add: py_isdigit_def digits_value_examples server3_def cpython_def)
  have "snd (FirewallNATRuleFacts_exec_module server3 (range_query ''0-3'')) =
     Inr [\<lparr>fr_policy = ''TestPolicy'',
           fr_rules = [Rule_entry ''R3'' ''fw_ipv4_nat_rule'' None]\<rparr>]"
    unfolding exec_module_range_slice [OF server3_finds_policy3(1,2,3) r03 parsed]
    by (simp add: render_rules_def range_query_def policy3_def py_slice_def slice_bound_def
        nat_rule_type_def)
  moreover have "map rule_name (rules_in_positions (fw_ipv4_nat_rules policy3) 0 3) =
      [''R1'', ''R2'', ''R3'']"
    by (simp add: rules_in_positions_def policy3_def upt_conv_Cons)
  ultimately show ?thesis by simp
qed

subsection \<open>Route VPN: absent, and the disable short circuit\<close>

lemma bnd_ret [simp]: "bnd (ret x) k = k x"
  by (simp add: bnd_def ret_def)

lemma bnd_raise [simp]: "bnd (raise f) k = raise f"
  by (simp add: bnd_def raise_def)

lemma fetch_element_run:
  "fetch_element n w = (w\<lparr>call_log := call_log w @ [RouteVPN_fetch n]\<rparr>, Inr (route_vpns w n))"
  by (simp add: fetch_element_def smc_read_def)

lemma exec_module_absent:
  assumes "vpn_state p = Absent"
  shows "ForcepointRouteVPN_exec_module p w =
     try_smc (apply_absent p (route_vpns w (vpn_name p)))
       (w\<lparr>call_log := call_log w @ [RouteVPN_fetch (vpn_name p)]\<rparr>)"
  using assms by (simp add: ForcepointRouteVPN_exec_module_def bnd_def fetch_element_run)

text \<open>
  Claim C5. With \<open>state: absent\<close>, a Route VPN that does not exist leaves the server
  untouched (the only call is the lookup) and the result has \<open>changed = False\<close>; one
  that exists is deleted, unless the server refuses the delete, and the result has
  \<open>changed = True\<close>.
\<close>

theorem absent_deletes_or_is_noop:
  assumes "vpn_state p = Absent"
  shows "(route_vpns w (vpn_name p) = None \<longrightarrow>
            ForcepointRouteVPN_exec_module p w =
              (w\<lparr>call_log := call_log w @ [RouteVPN_fetch (vpn_name p)]\<rparr>,
               Inr \<lparr>changed = False, state = Empty_list\<rparr>))
       \<and> (route_vpns w (vpn_name p) \<noteq> None \<and> \<not> refuses w (RouteVPN_delete (vpn_name p)) \<longrightarrow>
            ForcepointRouteVPN_exec_module p w =
              (w\<lparr>call_log := call_log w @ [RouteVPN_fetch (vpn_name p), RouteVPN_delete (vpn_name p)],
                 route_vpns := (route_vpns w)(vpn_name p := None)\<rparr>,
               Inr \<lparr>changed = True, state = Empty_list\<rparr>))"
proof (intro conjI impI)
  assume "route_vpns w (vpn_name p) = None"
  then show "ForcepointRouteVPN_exec_module p w =
              (w\<lparr>call_log := call_log w @ [RouteVPN_fetch (vpn_name p)]\<rparr>,
               Inr \<lparr>changed = False, state = Empty_list\<rparr>)"
    by (simp add: exec_module_absent [OF assms] apply_absent_def try_smc_def ret_def)
next
  assume "route_vpns w (vpn_name p) \<noteq> None \<and> \<not> refuses w (RouteVPN_delete (vpn_name p))"
  then obtain rv where "route_vpns w (vpn_name p) = Some rv"
    and "\<not> refuses w (RouteVPN_delete (vpn_name p))"
    by auto
  then show "ForcepointRouteVPN_exec_module p w =
              (w\<lparr>call_log := call_log w @ [RouteVPN_fetch (vpn_name p), RouteVPN_delete (vpn_name p)],
                 route_vpns := (route_vpns w)(vpn_name p := None)\<rparr>,
               Inr \<lparr>changed = True, state = Empty_list\<rparr>)"
    by (simp add: exec_module_absent [OF assms] apply_absent_def try_smc_def ret_def bnd_def
        smc_write_def)
qed

lemma smc_with_vpn_fields:
  "route_vpns smc_with_vpn ''myrbvpn'' = Some example_vpn"
  "refuses smc_with_vpn c = False"
  "call_log smc_with_vpn = []"
  by (simp_all add: smc_with_vpn_def smc_no_vpn_def)

lemma smc_no_vpn_fields:
  "route_vpns smc_no_vpn n = None"
  "refuses smc_no_vpn c = False"
  "call_log smc_no_vpn = []"
  by (simp_all add: smc_no_vpn_def)

theorem absent_deletes_or_is_noop_witness:
  "snd (ForcepointRouteVPN_exec_module (managed_gateways\<lparr>vpn_state := Absent\<rparr>) smc_with_vpn) =
     Inr \<lparr>changed = True, state = Empty_list\<rparr>
   \<and> call_log (fst (ForcepointRouteVPN_exec_module (managed_gateways\<lparr>vpn_state := Absent\<rparr>) smc_with_vpn)) =
     [RouteVPN_fetch ''myrbvpn'', RouteVPN_delete ''myrbvpn'']
   \<and> route_vpns (fst (ForcepointRouteVPN_exec_module (managed_gateways\<lparr>vpn_state := Absent\<rparr>) smc_with_vpn))
        ''myrbvpn'' = None
   \<and> ForcepointRouteVPN_exec_module (managed_gateways\<lparr>vpn_state := Absent\<rparr>) smc_no_vpn =
     (smc_no_vpn\<lparr>call_log := [RouteVPN_fetch ''myrbvpn'']\<rparr>, Inr \<lparr>changed = False, state = Empty_list\<rparr>)"
  using absent_deletes_or_is_noop [of "managed_gateways\<lparr>vpn_state := Absent\<rparr>" smc_with_vpn]
    absent_deletes_or_is_noop [of "managed_gateways\<lparr>vpn_state := Absent\<rparr>" smc_no_vpn]
  by (simp add: smc_with_vpn_fields smc_no_vpn_fields managed_gateways_def)

lemma exec_module_short_circuit:
  assumes "vpn_state p = Present" and "route_vpns w (vpn_name p) = Some rv"
    and "rbvpn_enabled rv" and "vpn_enabled p = Some False"
  shows "ForcepointRouteVPN_exec_module p w =
     bnd (smc_write (RouteVPN_disable (vpn_name p)) (set_enabled (vpn_name p) False))
       (\<lambda>u. ret \<lparr>changed = True, state = Empty_list\<rparr>)
       (w\<lparr>call_log := call_log w @ [RouteVPN_fetch (vpn_name p)]\<rparr>)"
  using assms
  by (simp add: ForcepointRouteVPN_exec_module_def bnd_def fetch_element_run short_circuit_disable_def)

lemma exec_module_present:
  assumes "vpn_state p = Present" and "\<not> short_circuit_disable p (route_vpns w (vpn_name p))"
  shows "ForcepointRouteVPN_exec_module p w =
     bnd (resolve_gateways p) (\<lambda>res. try_smc (apply_present p (route_vpns w (vpn_name p)) res))
       (w\<lparr>call_log := call_log w @ [RouteVPN_fetch (vpn_name p)]\<rparr>)"
  using assms
  by (simp add: ForcepointRouteVPN_exec_module_def bnd_def fetch_element_run)

lemma short_circuit_result:
  assumes "vpn_state p = Present" and "route_vpns w (vpn_name p) = Some rv"
    and "rbvpn_enabled rv" and "vpn_enabled p = Some False"
    and "\<not> refuses w (RouteVPN_disable (vpn_name p))"
  shows "ForcepointRouteVPN_exec_module p w =
     (w\<lparr>call_log := call_log w @ [RouteVPN_fetch (vpn_name p), RouteVPN_disable (vpn_name p)],
        route_vpns := (route_vpns w)(vpn_name p \<mapsto> rv\<lparr>rbvpn_enabled := False\<rparr>)\<rparr>,
      Inr \<lparr>changed = True, state = Empty_list\<rparr>)"
  using assms(2,5)
  by (simp add: exec_module_short_circuit [OF assms(1-4)] bnd_def smc_write_def ret_def
      set_enabled_def)

text \<open>
  Claim C1, at the input where the code departs from it. In check mode, with an
  existing enabled Route VPN and \<open>enabled: false\<close> requested, the short circuit runs
  before the check-mode return: \<open>rbvpn.disable()\<close> is called, the Route VPN is
  disabled on the server, and the result has \<open>changed = True\<close>.
\<close>

theorem check_mode_disable_still_writes:
  "snd (ForcepointRouteVPN_exec_module
          (managed_gateways\<lparr>vpn_enabled := Some False, check_mode := True\<rparr>) smc_with_vpn) =
     Inr \<lparr>changed = True, state = Empty_list\<rparr>
   \<and> call_log (fst (ForcepointRouteVPN_exec_module
          (managed_gateways\<lparr>vpn_enabled := Some False, check_mode := True\<rparr>) smc_with_vpn)) =
     [RouteVPN_fetch ''myrbvpn'', RouteVPN_disable ''myrbvpn'']
   \<and> map_option rbvpn_enabled (route_vpns (fst (ForcepointRouteVPN_exec_module
          (managed_gateways\<lparr>vpn_enabled := Some False, check_mode := True\<rparr>) smc_with_vpn))
          ''myrbvpn'') = Some False"
proof -
  have "ForcepointRouteVPN_exec_module
          (managed_gateways\<lparr>vpn_enabled := Some False, check_mode := True\<rparr>) smc_with_vpn =
     (smc_with_vpn\<lparr>call_log := call_log smc_with_vpn @ [RouteVPN_fetch ''myrbvpn'', RouteVPN_disable ''myrbvpn''],
        route_vpns := (route_vpns smc_with_vpn)(''myrbvpn'' \<mapsto> example_vpn\<lparr>rbvpn_enabled := False\<rparr>)\<rparr>,
      Inr \<lparr>changed = True, state = Empty_list\<rparr>)"
    using short_circuit_result
      [of "managed_gateways\<lparr>vpn_enabled := Some False, check_mode := True\<rparr>" smc_with_vpn example_vpn]
    by (simp add: managed_gateways_def smc_with_vpn_fields example_vpn_def)
  then show ?thesis
    by (simp add: smc_with_vpn_fields)
qed

subsection \<open>Route VPN: what the resolution may do\<close>

lemma reads_only_ret: "reads_only (ret x)"
  unfolding reads_only_def ret_def
  by (intro allI exI [of _ "[]"]) simp

lemma reads_only_raise: "reads_only (raise f)"
  unfolding reads_only_def raise_def
  by (intro allI exI [of _ "[]"]) simp

lemma reads_only_lift: "reads_only (lift r)"
  unfolding reads_only_def lift_def
  by (intro allI exI [of _ "[]"]) simp

lemma reads_only_smc_read: "\<not> is_mutating c \<Longrightarrow> reads_only (smc_read c f)"
  unfolding reads_only_def smc_read_def
  by (intro allI exI [of _ "[c]"]) simp

lemma reads_only_bnd:
  assumes "reads_only m" and "\<And>x. reads_only (k x)"
  shows "reads_only (bnd m k)"
  unfolding reads_only_def
proof
  fix w
  from assms(1) obtain evs where m: "fst (m w) = w\<lparr>call_log := call_log w @ evs\<rparr>"
    and e: "\<forall>c \<in> set evs. \<not> is_mutating c"
    unfolding reads_only_def by blast
  show "\<exists>evs. fst (bnd m k w) = w\<lparr>call_log := call_log w @ evs\<rparr> \<and> (\<forall>c \<in> set evs. \<not> is_mutating c)"
  proof (cases "snd (m w)")
    case (Inl f)
    with m have "fst (bnd m k w) = w\<lparr>call_log := call_log w @ evs\<rparr>"
      by (cases "m w") (simp add: bnd_def)
    with e show ?thesis by blast
  next
    case (Inr x)
    from assms(2) [of x] obtain evs' where
      k: "fst (k x (fst (m w))) = (fst (m w))\<lparr>call_log := call_log (fst (m w)) @ evs'\<rparr>"
      and e': "\<forall>c \<in> set evs'. \<not> is_mutating c"
      unfolding reads_only_def by blast
    from Inr have "fst (bnd m k w) = fst (k x (fst (m w)))"
      by (cases "m w") (simp add: bnd_def)
    with k m have "fst (bnd m k w) = w\<lparr>call_log := call_log w @ (evs @ evs')\<rparr>"
      by simp
    moreover from e e' have "\<forall>c \<in> set (evs @ evs'). \<not> is_mutating c" by auto
    ultimately show ?thesis by blast
  qed
qed

lemma fails_with_message_ret: "fails_with_message (ret x)"
  by (simp add: fails_with_message_def ret_def)

lemma fails_with_message_raise: "fails_with_message (raise (Fail_json msg))"
  by (simp add: fails_with_message_def raise_def)

lemma fails_with_message_smc_read: "fails_with_message (smc_read c f)"
  by (simp add: fails_with_message_def smc_read_def)

lemma fails_with_message_bnd:
  assumes "fails_with_message m" and "\<And>x. fails_with_message (k x)"
  shows "fails_with_message (bnd m k)"
  unfolding fails_with_message_def
proof (intro allI impI)
  fix w f
  assume a: "snd (bnd m k w) = Inl f"
  show "\<exists>msg. f = Fail_json msg"
  proof (cases "snd (m w)")
    case (Inl g)
    then have "snd (bnd m k w) = Inl g"
      by (cases "m w") (simp add: bnd_def)
    with a Inl assms(1) show ?thesis
      unfolding fails_with_message_def by auto
  next
    case (Inr x)
    then have "snd (bnd m k w) = snd (k x (fst (m w)))"
      by (cases "m w") (simp add: bnd_def)
    with a assms(2) [of x] show ?thesis
      unfolding fails_with_message_def by auto
  qed
qed

lemmas reads_intros = reads_only_ret reads_only_raise reads_only_lift reads_only_smc_read reads_only_bnd
lemmas fails_intros = fails_with_message_ret fails_with_message_raise fails_with_message_smc_read
  fails_with_message_bnd

lemma reads_only_get_managed_gateway: "reads_only (get_managed_gateway gw)"
  unfolding get_managed_gateway_def
  by (auto intro!: reads_intros split: option.splits)

lemma fails_get_managed_gateway: "fails_with_message (get_managed_gateway gw)"
  unfolding get_managed_gateway_def
  by (auto intro!: fails_intros split: option.splits)

lemma reads_only_get_tunnel_interface: "reads_only (get_tunnel_interface eng i)"
  unfolding get_tunnel_interface_def
  by (auto intro!: reads_intros split: option.splits)

lemma fails_get_tunnel_interface: "fails_with_message (get_tunnel_interface eng i)"
  unfolding get_tunnel_interface_def
  by (auto intro!: fails_intros split: option.splits)

lemma reads_only_get_exact: "reads_only (get_exact eng a)"
  unfolding get_exact_def by (rule reads_only_smc_read) simp

lemma fails_get_exact: "fails_with_message (get_exact eng a)"
  unfolding get_exact_def by (rule fails_with_message_smc_read)

lemma reads_only_collect_endpoints: "reads_only (collect_endpoints eng addrs)"
  by (induction addrs) (auto intro!: reads_intros reads_only_get_exact split: option.splits)

lemma fails_collect_endpoints: "fails_with_message (collect_endpoints eng addrs)"
  by (induction addrs) (auto intro!: fails_intros fails_get_exact split: option.splits)

lemma reads_only_get_ipsec_endpoint: "reads_only (get_ipsec_endpoint eng i a)"
  unfolding get_ipsec_endpoint_def
  by (auto intro!: reads_intros reads_only_get_exact reads_only_collect_endpoints
      split: option.splits prod.splits)

lemma fails_get_ipsec_endpoint: "fails_with_message (get_ipsec_endpoint eng i a)"
  unfolding get_ipsec_endpoint_def
  by (auto intro!: fails_intros fails_get_exact fails_collect_endpoints
      split: option.splits prod.splits)

lemma reads_only_resolve_local: "reads_only (resolve_local p)"
  unfolding resolve_local_def
  by (intro reads_intros reads_only_get_managed_gateway reads_only_get_tunnel_interface
      reads_only_get_ipsec_endpoint)

lemma fails_resolve_local: "fails_with_message (resolve_local p)"
  unfolding resolve_local_def
  by (intro fails_intros fails_get_managed_gateway fails_get_tunnel_interface
      fails_get_ipsec_endpoint)

lemma reads_only_cache_add_entry: "reads_only (cache_add_entry c t n)"
  unfolding cache_add_entry_def
  by (auto intro!: reads_intros split: option.splits)

lemma reads_only_cache_add_names: "reads_only (cache_add_names c t ns)"
  by (induction ns arbitrary: c) (auto intro!: reads_intros reads_only_cache_add_entry)

lemma reads_only_cache_add: "reads_only (cache_add c d)"
  by (induction d arbitrary: c) (auto intro!: reads_intros reads_only_cache_add_names)

lemma reads_only_resolve_vpn_site: "reads_only (resolve_vpn_site gw c)"
  unfolding resolve_vpn_site_def Let_def
  by (auto intro!: reads_intros reads_only_cache_add split: pyval.splits)

lemma reads_only_resolve_external_gateway: "reads_only (resolve_external_gateway gw)"
  unfolding resolve_external_gateway_def
  by (auto intro!: reads_intros reads_only_cache_add_names reads_only_resolve_vpn_site
      split: option.splits prod.splits)

lemma reads_only_resolve_remote: "reads_only (resolve_remote p)"
  unfolding resolve_remote_def
  by (auto intro!: reads_intros reads_only_get_managed_gateway reads_only_get_tunnel_interface
      reads_only_get_ipsec_endpoint reads_only_resolve_external_gateway)

lemma reads_only_resolve_gateways: "reads_only (resolve_gateways p)"
  unfolding resolve_gateways_def
  by (auto intro!: reads_intros reads_only_resolve_local reads_only_resolve_remote
      split: prod.splits)

lemma reads_only_fetch_element: "reads_only (fetch_element n)"
  unfolding fetch_element_def by (rule reads_only_smc_read) simp

lemmas run_defs = bnd_def ret_def raise_def lift_def smc_read_def smc_write_def try_smc_def Let_def

lemmas vpn_defs = ForcepointRouteVPN_exec_module_def fetch_element_def short_circuit_disable_def
  resolve_gateways_def resolve_local_def resolve_remote_def get_managed_gateway_def
  get_tunnel_interface_def get_ipsec_endpoint_def get_exact_def Engine_lookup_def
  resolve_external_gateway_def resolve_vpn_site_def cache_add_entry_def cache_get_def
  empty_cache_def is_external_def apply_present_def create_route_vpn_def update_route_vpn_def
  update_or_create_def results_with_state_def enable_endpoint_def set_enabled_def
  dict_get_def dict_has_def dict_pop_def dict_set_def

lemmas example_defs = smc_no_vpn_def smc_with_vpn_def example_engines_def example_vpn_def
  managed_gateways_def external_gateway_def external_gateway_no_key_def

subsection \<open>Route VPN: creation, update and validation\<close>

lemma bnd_success:
  "bnd m k w = (w', Inr y) \<Longrightarrow> \<exists>w1 x. m w = (w1, Inr x) \<and> k x w1 = (w', Inr y)"
  by (auto simp: bnd_def split: prod.splits sum.splits)

lemma try_smc_success: "try_smc m w = (w', Inr y) \<Longrightarrow> m w = (w', Inr y)"
  by (auto simp: try_smc_def split: prod.splits sum.splits failure.splits)

lemma results_with_state_success:
  "results_with_state n c w = (w', Inr r) \<Longrightarrow>
   w' = w \<and> (\<exists>rv. route_vpns w n = Some rv \<and> r = \<lparr>changed = c, state = Snapshot rv\<rparr>)"
  by (auto simp: results_with_state_def split: option.splits)

lemma smc_write_success:
  "smc_write c f w = (w', Inr u) \<Longrightarrow> \<not> refuses w c \<and> w' = f (w\<lparr>call_log := call_log w @ [c]\<rparr>)"
  by (auto simp: smc_write_def split: if_splits)

lemma create_route_vpn_success:
  assumes "create_route_vpn p res w = (w', Inr r)"
  shows "\<exists>lg rg. last (call_log w') =
            RouteVPN_create_ipsec_tunnel (vpn_name p) lg rg
              (if is_external p then dict_get (remote_gw p) ''preshared_key''
               else (case preshared_key p of None \<Rightarrow> PNone | Some k \<Rightarrow> PStr k))
              (if str_truthy (vpn_profile_name p) then vpn_profile_name p else None)
          \<and> route_vpns w' (vpn_name p) =
              Some \<lparr>rbvpn_enabled = True, local_endpoint = lg, remote_endpoint = rg,
                    rbvpn_preshared_key =
                      (if is_external p then dict_get (remote_gw p) ''preshared_key''
                       else (case preshared_key p of None \<Rightarrow> PNone | Some k \<Rightarrow> PStr k)),
                    vpn_profile =
                      (if str_truthy (vpn_profile_name p) then vpn_profile_name p else None)\<rparr>
          \<and> r = \<lparr>changed = True, state = Snapshot (the (route_vpns w' (vpn_name p)))\<rparr>"
proof -
  from assms obtain w2 c1 w3 rg w4 u where
    "smc_write
       (RouteVPN_create_ipsec_tunnel (vpn_name p)
          (Engine_endpoint (engine_name (local_engine res)) (local_tunnel_interface res)) rg
          (if is_external p then dict_get (remote_gw p) ''preshared_key''
           else (case preshared_key p of None \<Rightarrow> PNone | Some k \<Rightarrow> PStr k))
          (if str_truthy (vpn_profile_name p) then vpn_profile_name p else None))
       (\<lambda>w. w\<lparr>route_vpns := (route_vpns w)(vpn_name p \<mapsto>
                 \<lparr>rbvpn_enabled = True,
                  local_endpoint = Engine_endpoint (engine_name (local_engine res)) (local_tunnel_interface res),
                  remote_endpoint = rg,
                  rbvpn_preshared_key =
                    (if is_external p then dict_get (remote_gw p) ''preshared_key''
                     else (case preshared_key p of None \<Rightarrow> PNone | Some k \<Rightarrow> PStr k)),
                  vpn_profile =
                    (if str_truthy (vpn_profile_name p) then vpn_profile_name p else None)\<rparr>)\<rparr>)
       w3 = (w4, Inr u)"
    and "results_with_state (vpn_name p) True w4 = (w', Inr r)"
    unfolding create_route_vpn_def Let_def
    by (blast dest: bnd_success)
  then show ?thesis
    by (auto dest!: smc_write_success results_with_state_success)
qed

text \<open>
  Claim C9. On the creation path (state present, no existing Route VPN, not check
  mode), a run that succeeds has made \<open>RouteVPN.create_ipsec_tunnel\<close> its last call,
  and the preshared key passed to it, stored in the created Route VPN and returned in
  \<open>state\<close>, is the \<open>preshared_key\<close> of \<open>remote_gw\<close> when the remote side is an external
  gateway, whatever the module-level \<open>preshared_key\<close>; for a managed remote side it is
  the module-level value, \<open>None\<close> when absent.
\<close>

theorem external_gateway_preshared_key_overrides:
  assumes "vpn_state p = Present" and "route_vpns w (vpn_name p) = None" and "\<not> check_mode p"
    and "ForcepointRouteVPN_exec_module p w = (w', Inr r)"
  shows "\<exists>lg rg. last (call_log w') =
            RouteVPN_create_ipsec_tunnel (vpn_name p) lg rg
              (if dict_get (remote_gw p) ''type'' = PStr ''external_gateway''
               then dict_get (remote_gw p) ''preshared_key''
               else (case preshared_key p of None \<Rightarrow> PNone | Some k \<Rightarrow> PStr k))
              (if str_truthy (vpn_profile_name p) then vpn_profile_name p else None)
          \<and> route_vpns w' (vpn_name p) =
              Some \<lparr>rbvpn_enabled = True, local_endpoint = lg, remote_endpoint = rg,
                    rbvpn_preshared_key =
                      (if dict_get (remote_gw p) ''type'' = PStr ''external_gateway''
                       then dict_get (remote_gw p) ''preshared_key''
                       else (case preshared_key p of None \<Rightarrow> PNone | Some k \<Rightarrow> PStr k)),
                    vpn_profile =
                      (if str_truthy (vpn_profile_name p) then vpn_profile_name p else None)\<rparr>
          \<and> r = \<lparr>changed = True, state = Snapshot (the (route_vpns w' (vpn_name p)))\<rparr>"
proof -
  from assms(2) have "\<not> short_circuit_disable p (route_vpns w (vpn_name p))"
    by (simp add: short_circuit_disable_def)
  from assms(4) [unfolded exec_module_present [OF assms(1) this]] assms(2,3)
  obtain w1 res where "create_route_vpn p res w1 = (w', Inr r)"
    by (auto dest!: bnd_success try_smc_success simp: apply_present_def)
  from create_route_vpn_success [OF this] show ?thesis
    unfolding is_external_def .
qed

lemma external_gateway_run:
  "ForcepointRouteVPN_exec_module external_gateway smc_no_vpn =
     (fst (ForcepointRouteVPN_exec_module external_gateway smc_no_vpn),
      Inr \<lparr>changed = True,
           state = Snapshot
               \<lparr>rbvpn_enabled = True,
                local_endpoint = Engine_endpoint ''newcluster'' ''1001'',
                remote_endpoint = Gateway_endpoint (PStr ''extgw3''),
                rbvpn_preshared_key = PStr ''gateway-key'',
                vpn_profile = None\<rparr>\<rparr>)"
proof -
  have "snd (ForcepointRouteVPN_exec_module external_gateway smc_no_vpn) =
      Inr \<lparr>changed = True,
           state = Snapshot
               \<lparr>rbvpn_enabled = True,
                local_endpoint = Engine_endpoint ''newcluster'' ''1001'',
                remote_endpoint = Gateway_endpoint (PStr ''extgw3''),
                rbvpn_preshared_key = PStr ''gateway-key'',
                vpn_profile = None\<rparr>\<rparr>"
    by (simp add: vpn_defs run_defs example_defs)
  then show ?thesis
    by (metis prod.collapse)
qed

theorem external_gateway_preshared_key_overrides_witness:
  "preshared_key external_gateway = Some ''module-key''
   \<and> (\<exists>lg rg. last (call_log (fst (ForcepointRouteVPN_exec_module external_gateway smc_no_vpn))) =
          RouteVPN_create_ipsec_tunnel ''myrbvpn'' lg rg (PStr ''gateway-key'') None
        \<and> route_vpns (fst (ForcepointRouteVPN_exec_module external_gateway smc_no_vpn)) ''myrbvpn'' =
          Some \<lparr>rbvpn_enabled = True, local_endpoint = lg, remote_endpoint = rg,
                rbvpn_preshared_key = PStr ''gateway-key'', vpn_profile = None\<rparr>)"
proof -
  have a: "vpn_state external_gateway = Present" "route_vpns smc_no_vpn (vpn_name external_gateway) = None"
    "\<not> check_mode external_gateway"
    by (simp_all add: example_defs)
  have b: "vpn_name external_gateway = ''myrbvpn''"
    "dict_get (remote_gw external_gateway) ''type'' = PStr ''external_gateway''"
    "dict_get (remote_gw external_gateway) ''preshared_key'' = PStr ''gateway-key''"
    "vpn_profile_name external_gateway = None"
    "preshared_key external_gateway = Some ''module-key''"
    by (simp_all add: example_defs dict_get_def)
  from external_gateway_preshared_key_overrides [OF a external_gateway_run]
  show ?thesis
    unfolding b by auto
qed

lemma update_route_vpn_success:
  assumes "update_route_vpn p rv res w = (w', Inr r)"
  shows "\<exists>rv'. route_vpns w' (vpn_name p) = Some rv' \<and> state r = Snapshot rv'"
proof -
  from assms obtain c w4 where "results_with_state (vpn_name p) c w4 = (w', Inr r)"
    unfolding update_route_vpn_def
    by (blast dest: bnd_success)
  then show ?thesis
    by (auto dest!: results_with_state_success)
qed

lemma apply_absent_success:
  assumes "try_smc (apply_absent p rb) w = (w', Inr r)" and "rb = route_vpns w (vpn_name p)"
  shows "state r = Empty_list \<and> route_vpns w' (vpn_name p) = None"
  using assms
  by (auto simp: apply_absent_def ret_def dest!: try_smc_success bnd_success smc_write_success
      split: option.splits)

text \<open>
  Claim C3, as amended. A successful run returns \<open>changed\<close> and \<open>state\<close>. On the
  present paths that run to the end of the \<open>try\<close> block (not check mode, not the
  disable short circuit), \<open>state\<close> is the data of the Route VPN object as the server
  then holds it. In check mode (outside the short circuit) the result is the initial
  one, and with \<open>state: absent\<close> the \<open>state\<close> entry stays the initial empty list: no
  Route VPN of that name is left.
\<close>

theorem state_snapshot_on_present_paths:
  assumes "ForcepointRouteVPN_exec_module p w = (w', Inr r)"
  shows "(vpn_state p = Present \<and> \<not> check_mode p \<and>
          \<not> short_circuit_disable p (route_vpns w (vpn_name p)) \<longrightarrow>
            (\<exists>rv. route_vpns w' (vpn_name p) = Some rv \<and> state r = Snapshot rv))
       \<and> (vpn_state p = Present \<and> check_mode p \<and>
          \<not> short_circuit_disable p (route_vpns w (vpn_name p)) \<longrightarrow>
            r = \<lparr>changed = False, state = Empty_list\<rparr>)
       \<and> (vpn_state p = Absent \<longrightarrow>
            state r = Empty_list \<and> route_vpns w' (vpn_name p) = None)"
proof -
  have present: "ForcepointRouteVPN_exec_module p w =
     bnd (resolve_gateways p) (\<lambda>res. try_smc (apply_present p (route_vpns w (vpn_name p)) res))
       (w\<lparr>call_log := call_log w @ [RouteVPN_fetch (vpn_name p)]\<rparr>)"
    if "vpn_state p = Present" "\<not> short_circuit_disable p (route_vpns w (vpn_name p))"
    using that by (rule exec_module_present)
  have one: "\<exists>rv. route_vpns w' (vpn_name p) = Some rv \<and> state r = Snapshot rv"
    if a: "vpn_state p = Present \<and> \<not> check_mode p \<and>
          \<not> short_circuit_disable p (route_vpns w (vpn_name p))"
  proof -
    from a assms present obtain w1 res where
      ap: "apply_present p (route_vpns w (vpn_name p)) res w1 = (w', Inr r)"
      by (auto dest!: bnd_success try_smc_success)
    show ?thesis
    proof (cases "route_vpns w (vpn_name p)")
      case None
      with ap a have "create_route_vpn p res w1 = (w', Inr r)"
        by (simp add: apply_present_def)
      from create_route_vpn_success [OF this] show ?thesis by auto
    next
      case (Some rv)
      with ap a have "update_route_vpn p rv res w1 = (w', Inr r)"
        by (simp add: apply_present_def)
      from update_route_vpn_success [OF this] show ?thesis .
    qed
  qed
  have two: "r = \<lparr>changed = False, state = Empty_list\<rparr>"
    if a: "vpn_state p = Present \<and> check_mode p \<and>
          \<not> short_circuit_disable p (route_vpns w (vpn_name p))"
  proof -
    from a assms present obtain w1 res where
      "apply_present p (route_vpns w (vpn_name p)) res w1 = (w', Inr r)"
      by (auto dest!: bnd_success try_smc_success)
    with a show ?thesis
      by (simp add: apply_present_def ret_def)
  qed
  have three: "state r = Empty_list \<and> route_vpns w' (vpn_name p) = None"
    if a: "vpn_state p = Absent"
  proof -
    from a have "ForcepointRouteVPN_exec_module p w =
       try_smc (apply_absent p (route_vpns w (vpn_name p)))
         (w\<lparr>call_log := call_log w @ [RouteVPN_fetch (vpn_name p)]\<rparr>)"
      by (simp add: ForcepointRouteVPN_exec_module_def bnd_def fetch_element_run)
    with assms have "try_smc (apply_absent p (route_vpns w (vpn_name p)))
         (w\<lparr>call_log := call_log w @ [RouteVPN_fetch (vpn_name p)]\<rparr>) = (w', Inr r)"
      by simp
    from apply_absent_success [OF this] show ?thesis
      by simp
  qed
  from one two three show ?thesis by blast
qed

theorem state_empty_on_absent_counterexample:
  "snd (ForcepointRouteVPN_exec_module (managed_gateways\<lparr>vpn_state := Absent\<rparr>) smc_with_vpn) =
     Inr \<lparr>changed = True, state = Empty_list\<rparr>"
  by (simp add: vpn_defs run_defs example_defs apply_absent_def)

lemma managed_gateways_update_run:
  "ForcepointRouteVPN_exec_module managed_gateways smc_with_vpn =
     (fst (ForcepointRouteVPN_exec_module managed_gateways smc_with_vpn),
      Inr \<lparr>changed = False, state = Snapshot example_vpn\<rparr>)"
proof -
  have "snd (ForcepointRouteVPN_exec_module managed_gateways smc_with_vpn) =
      Inr \<lparr>changed = False, state = Snapshot example_vpn\<rparr>"
    by (simp add: vpn_defs run_defs example_defs)
  then show ?thesis
    by (metis prod.collapse)
qed

theorem state_snapshot_on_present_paths_witness:
  "route_vpns (fst (ForcepointRouteVPN_exec_module managed_gateways smc_with_vpn)) ''myrbvpn'' =
     Some example_vpn
   \<and> snd (ForcepointRouteVPN_exec_module managed_gateways smc_with_vpn) =
     Inr \<lparr>changed = False, state = Snapshot example_vpn\<rparr>"
proof -
  have a: "vpn_state managed_gateways = Present" "\<not> check_mode managed_gateways"
    "\<not> short_circuit_disable managed_gateways (route_vpns smc_with_vpn (vpn_name managed_gateways))"
    "vpn_name managed_gateways = ''myrbvpn''"
    by (simp_all add: example_defs short_circuit_disable_def)
  from state_snapshot_on_present_paths [OF managed_gateways_update_run] a
  have "route_vpns (fst (ForcepointRouteVPN_exec_module managed_gateways smc_with_vpn)) ''myrbvpn'' =
     Some example_vpn"
    by simp
  moreover from managed_gateways_update_run
  have "snd (ForcepointRouteVPN_exec_module managed_gateways smc_with_vpn) =
     Inr \<lparr>changed = False, state = Snapshot example_vpn\<rparr>"
    by (metis snd_conv)
  ultimately show ?thesis by simp
qed

lemma reads_onlyD:
  assumes "reads_only m" and "m w = (w', r)"
  shows "\<exists>evs. w' = w\<lparr>call_log := call_log w @ evs\<rparr> \<and> (\<forall>c \<in> set evs. \<not> is_mutating c)"
  using assms unfolding reads_only_def by (metis fst_conv)

lemma fails_with_messageD:
  assumes "fails_with_message m" and "m w = (w', Inl f)"
  shows "\<exists>msg. f = Fail_json msg"
  using assms unfolding fails_with_message_def by (metis snd_conv)

lemma get_managed_gateway_success:
  "get_managed_gateway gw w = (w', Inr e) \<Longrightarrow>
   w' = w\<lparr>call_log := call_log w @ [Engine_get (dict_get gw ''name'')]\<rparr>"
  by (auto simp: get_managed_gateway_def bnd_def smc_read_def raise_def ret_def
      split: option.splits)

lemma resolve_local_success:
  assumes "resolve_local p w = (w1, Inr l)"
  shows "\<exists>evs. w1 = w\<lparr>call_log := call_log w @ Engine_get (dict_get (local_gw p) ''name'') # evs\<rparr>
           \<and> (\<forall>c \<in> set evs. \<not> is_mutating c)"
proof -
  from assms obtain wa e where g: "get_managed_gateway (local_gw p) w = (wa, Inr e)"
    and rest: "bnd (get_tunnel_interface e (dict_get (local_gw p) ''tunnel_interface''))
       (\<lambda>l_tunnel.
     bnd (get_ipsec_endpoint e (dict_get (local_gw p) ''interface_id'')
            (dict_get (local_gw p) ''address''))
       (\<lambda>l_endpoints. ret (e, l_tunnel, l_endpoints))) wa = (w1, Inr l)"
    unfolding resolve_local_def by (blast dest: bnd_success)
  have "reads_only (bnd (get_tunnel_interface e (dict_get (local_gw p) ''tunnel_interface''))
       (\<lambda>l_tunnel.
     bnd (get_ipsec_endpoint e (dict_get (local_gw p) ''interface_id'')
            (dict_get (local_gw p) ''address''))
       (\<lambda>l_endpoints. ret (e, l_tunnel, l_endpoints))))"
    by (intro reads_intros reads_only_get_tunnel_interface reads_only_get_ipsec_endpoint)
  from reads_onlyD [OF this rest] obtain evs where
    "w1 = wa\<lparr>call_log := call_log wa @ evs\<rparr>" "\<forall>c \<in> set evs. \<not> is_mutating c"
    by blast
  with get_managed_gateway_success [OF g] show ?thesis
    by auto
qed

lemma resolve_gateways_success:
  assumes "resolve_gateways p w = (w1, Inr res)"
  shows "\<exists>evs. w1 = w\<lparr>call_log := call_log w @ Engine_get (dict_get (local_gw p) ''name'') # evs\<rparr>
           \<and> (\<forall>c \<in> set evs. \<not> is_mutating c)"
proof -
  from assms obtain wa l where loc: "resolve_local p w = (wa, Inr l)"
    and rest: "(case l of (l_engine, l_tunnel, l_endpoints) \<Rightarrow>
       bnd (resolve_remote p)
         (\<lambda>r. ret \<lparr>local_engine = l_engine, local_tunnel_interface = l_tunnel,
                  local_internal_endpoint = l_endpoints, remote = r\<rparr>)) wa = (w1, Inr res)"
    unfolding resolve_gateways_def by (blast dest: bnd_success)
  have "reads_only (case l of (l_engine, l_tunnel, l_endpoints) \<Rightarrow>
       bnd (resolve_remote p)
         (\<lambda>r. ret \<lparr>local_engine = l_engine, local_tunnel_interface = l_tunnel,
                  local_internal_endpoint = l_endpoints, remote = r\<rparr>))"
    by (auto intro!: reads_intros reads_only_resolve_remote split: prod.splits)
  from reads_onlyD [OF this rest] obtain evs where
    e: "w1 = wa\<lparr>call_log := call_log wa @ evs\<rparr>" "\<forall>c \<in> set evs. \<not> is_mutating c"
    by blast
  from resolve_local_success [OF loc] obtain evs0 where
    "wa = w\<lparr>call_log := call_log w @ Engine_get (dict_get (local_gw p) ''name'') # evs0\<rparr>"
    "\<forall>c \<in> set evs0. \<not> is_mutating c"
    by blast
  with e have "w1 = w\<lparr>call_log := call_log w @ Engine_get (dict_get (local_gw p) ''name'') # (evs0 @ evs)\<rparr>"
    "\<forall>c \<in> set (evs0 @ evs). \<not> is_mutating c"
    by auto
  then show ?thesis by blast
qed

lemma update_route_vpn_enable_log:
  assumes "\<not> rbvpn_enabled rv" and "vpn_enabled p = Some True"
    and "\<not> refuses w (RouteVPN_enable (vpn_name p))"
  shows "\<exists>rest. call_log (fst (try_smc (update_route_vpn p rv res) w)) =
           call_log w @ RouteVPN_enable (vpn_name p) # rest"
  using assms
  by (auto simp: update_route_vpn_def run_defs update_or_create_def results_with_state_def
      set_enabled_def split: option.splits remote_side.splits sum.splits failure.splits prod.splits)

text \<open>
  Claim C2. For an existing enabled Route VPN and \<open>enabled: false\<close>, the run is the
  lookup and \<open>rbvpn.disable()\<close>, nothing else: no gateway, interface or endpoint is
  looked up or touched, and the result has \<open>changed = True\<close>. Enabling is different:
  for an existing disabled Route VPN and \<open>enabled: true\<close>, a failing resolution of the
  gateways ends the run with that failure and without a write, and when the resolution
  succeeds \<open>rbvpn.enable()\<close> comes after the lookup of the local engine and the
  other read calls of the resolution.
\<close>

theorem disable_short_circuit_is_asymmetric:
  assumes "vpn_state p = Present" and "route_vpns w (vpn_name p) = Some rv"
  shows "(rbvpn_enabled rv \<and> vpn_enabled p = Some False \<and>
          \<not> refuses w (RouteVPN_disable (vpn_name p)) \<longrightarrow>
            ForcepointRouteVPN_exec_module p w =
              (w\<lparr>call_log := call_log w @ [RouteVPN_fetch (vpn_name p), RouteVPN_disable (vpn_name p)],
                 route_vpns := (route_vpns w)(vpn_name p \<mapsto> rv\<lparr>rbvpn_enabled := False\<rparr>)\<rparr>,
               Inr \<lparr>changed = True, state = Empty_list\<rparr>))
       \<and> (\<not> rbvpn_enabled rv \<and> vpn_enabled p = Some True \<longrightarrow>
            (\<forall>w1 f. resolve_gateways p (w\<lparr>call_log := call_log w @ [RouteVPN_fetch (vpn_name p)]\<rparr>) = (w1, Inl f) \<longrightarrow>
               ForcepointRouteVPN_exec_module p w = (w1, Inl f) \<and>
               (\<exists>evs. w1 = w\<lparr>call_log := call_log w @ RouteVPN_fetch (vpn_name p) # evs\<rparr> \<and>
                      (\<forall>c \<in> set evs. \<not> is_mutating c)))
          \<and> (\<forall>w1 res. resolve_gateways p (w\<lparr>call_log := call_log w @ [RouteVPN_fetch (vpn_name p)]\<rparr>) = (w1, Inr res)
                 \<and> \<not> check_mode p \<and> \<not> refuses w (RouteVPN_enable (vpn_name p)) \<longrightarrow>
               (\<exists>evs rest. call_log (fst (ForcepointRouteVPN_exec_module p w)) =
                    call_log w @ RouteVPN_fetch (vpn_name p) #
                      Engine_get (dict_get (local_gw p) ''name'') # evs @
                      RouteVPN_enable (vpn_name p) # rest
                  \<and> (\<forall>c \<in> set evs. \<not> is_mutating c))))"
proof -
  let ?w0 = "w\<lparr>call_log := call_log w @ [RouteVPN_fetch (vpn_name p)]\<rparr>"
  have one: "ForcepointRouteVPN_exec_module p w =
              (w\<lparr>call_log := call_log w @ [RouteVPN_fetch (vpn_name p), RouteVPN_disable (vpn_name p)],
                 route_vpns := (route_vpns w)(vpn_name p \<mapsto> rv\<lparr>rbvpn_enabled := False\<rparr>)\<rparr>,
               Inr \<lparr>changed = True, state = Empty_list\<rparr>)"
    if "rbvpn_enabled rv \<and> vpn_enabled p = Some False \<and> \<not> refuses w (RouteVPN_disable (vpn_name p))"
    using that by (intro short_circuit_result [OF assms]) auto
  have run: "ForcepointRouteVPN_exec_module p w =
      bnd (resolve_gateways p) (\<lambda>res. try_smc (apply_present p (Some rv) res)) ?w0"
    if "\<not> rbvpn_enabled rv"
    using that exec_module_present [OF assms(1), of w] assms(2)
    by (simp add: short_circuit_disable_def)
  have two: "ForcepointRouteVPN_exec_module p w = (w1, Inl f) \<and>
               (\<exists>evs. w1 = w\<lparr>call_log := call_log w @ RouteVPN_fetch (vpn_name p) # evs\<rparr> \<and>
                      (\<forall>c \<in> set evs. \<not> is_mutating c))"
    if a: "\<not> rbvpn_enabled rv \<and> vpn_enabled p = Some True"
      and r: "resolve_gateways p ?w0 = (w1, Inl f)" for w1 f
  proof -
    from a r have "ForcepointRouteVPN_exec_module p w = (w1, Inl f)"
      by (simp add: run bnd_def)
    moreover from reads_onlyD [OF reads_only_resolve_gateways r]
    have "\<exists>evs. w1 = w\<lparr>call_log := call_log w @ RouteVPN_fetch (vpn_name p) # evs\<rparr> \<and>
                      (\<forall>c \<in> set evs. \<not> is_mutating c)"
      by auto
    ultimately show ?thesis by blast
  qed
  have three: "\<exists>evs rest. call_log (fst (ForcepointRouteVPN_exec_module p w)) =
                    call_log w @ RouteVPN_fetch (vpn_name p) #
                      Engine_get (dict_get (local_gw p) ''name'') # evs @
                      RouteVPN_enable (vpn_name p) # rest
                  \<and> (\<forall>c \<in> set evs. \<not> is_mutating c)"
    if a: "\<not> rbvpn_enabled rv \<and> vpn_enabled p = Some True"
      and r: "resolve_gateways p ?w0 = (w1, Inr res) \<and> \<not> check_mode p \<and>
              \<not> refuses w (RouteVPN_enable (vpn_name p))" for w1 res
  proof -
    from r resolve_gateways_success [of p ?w0 w1 res] obtain evs where
      w1: "w1 = w\<lparr>call_log := call_log w @ RouteVPN_fetch (vpn_name p) #
                    Engine_get (dict_get (local_gw p) ''name'') # evs\<rparr>"
      and evs: "\<forall>c \<in> set evs. \<not> is_mutating c"
      by auto
    from a r have "ForcepointRouteVPN_exec_module p w = try_smc (update_route_vpn p rv res) w1"
      by (simp add: run bnd_def apply_present_def)
    moreover from w1 r have "\<not> refuses w1 (RouteVPN_enable (vpn_name p))"
      by simp
    from update_route_vpn_enable_log [OF _ _ this, of rv res] a
    obtain rest where "call_log (fst (try_smc (update_route_vpn p rv res) w1)) =
           call_log w1 @ RouteVPN_enable (vpn_name p) # rest"
      by blast
    ultimately have "call_log (fst (ForcepointRouteVPN_exec_module p w)) =
        call_log w @ RouteVPN_fetch (vpn_name p) #
                      Engine_get (dict_get (local_gw p) ''name'') # evs @
                      RouteVPN_enable (vpn_name p) # rest"
      using w1 by simp
    with evs show ?thesis by blast
  qed
  from one two three show ?thesis by blast
qed

theorem disable_short_circuit_is_asymmetric_witness:
  "ForcepointRouteVPN_exec_module (managed_gateways\<lparr>vpn_enabled := Some False\<rparr>) smc_with_vpn =
     (smc_with_vpn\<lparr>call_log := call_log smc_with_vpn @ [RouteVPN_fetch ''myrbvpn'', RouteVPN_disable ''myrbvpn''],
        route_vpns := (route_vpns smc_with_vpn)(''myrbvpn'' \<mapsto> example_vpn\<lparr>rbvpn_enabled := False\<rparr>)\<rparr>,
      Inr \<lparr>changed = True, state = Empty_list\<rparr>)
   \<and> call_log (fst (ForcepointRouteVPN_exec_module (managed_gateways\<lparr>vpn_enabled := Some True\<rparr>)
                       smc_with_disabled_vpn)) =
       [RouteVPN_fetch ''myrbvpn'', Engine_get (PStr ''newcluster''),
        Engine_tunnel_interface ''newcluster'',
        Engine_interface_get ''newcluster'' (PStr ''1''),
        InternalEndpoint_get_exact ''newcluster'' (PStr ''2.2.2.2''),
        InternalEndpoint_get_exact ''newcluster'' (PStr ''2.2.2.2''),
        Engine_get (PStr ''myfw''), Engine_tunnel_interface ''myfw'',
        Engine_interface_get ''myfw'' (PStr ''0''),
        InternalEndpoint_get_exact ''myfw'' (PStr ''10.0.0.1''),
        InternalEndpoint_get_exact ''myfw'' (PStr ''10.0.0.1''),
        RouteVPN_enable ''myrbvpn'']"
proof -
  have "ForcepointRouteVPN_exec_module (managed_gateways\<lparr>vpn_enabled := Some False\<rparr>) smc_with_vpn =
     (smc_with_vpn\<lparr>call_log := call_log smc_with_vpn @ [RouteVPN_fetch ''myrbvpn'', RouteVPN_disable ''myrbvpn''],
        route_vpns := (route_vpns smc_with_vpn)(''myrbvpn'' \<mapsto> example_vpn\<lparr>rbvpn_enabled := False\<rparr>)\<rparr>,
      Inr \<lparr>changed = True, state = Empty_list\<rparr>)"
    using disable_short_circuit_is_asymmetric
      [of "managed_gateways\<lparr>vpn_enabled := Some False\<rparr>" smc_with_vpn example_vpn]
    by (simp add: example_defs)
  moreover have "call_log (fst (ForcepointRouteVPN_exec_module (managed_gateways\<lparr>vpn_enabled := Some True\<rparr>)
                       smc_with_disabled_vpn)) =
       [RouteVPN_fetch ''myrbvpn'', Engine_get (PStr ''newcluster''),
        Engine_tunnel_interface ''newcluster'',
        Engine_interface_get ''newcluster'' (PStr ''1''),
        InternalEndpoint_get_exact ''newcluster'' (PStr ''2.2.2.2''),
        InternalEndpoint_get_exact ''newcluster'' (PStr ''2.2.2.2''),
        Engine_get (PStr ''myfw''), Engine_tunnel_interface ''myfw'',
        Engine_interface_get ''myfw'' (PStr ''0''),
        InternalEndpoint_get_exact ''myfw'' (PStr ''10.0.0.1''),
        InternalEndpoint_get_exact ''myfw'' (PStr ''10.0.0.1''),
        RouteVPN_enable ''myrbvpn'']"
    by (simp add: vpn_defs run_defs example_defs smc_with_disabled_vpn_def)
  ultimately show ?thesis by simp
qed

lemma first_missing_Some:
  "\<exists>k \<in> set ks. \<not> dict_has d k \<Longrightarrow> \<exists>k \<in> set ks. first_missing d ks = Some k"
  by (induction ks) auto

lemma check_endpoints_invalid:
  assumes "\<forall>ep \<in> set eps. \<exists>d'. ep = PDict d'" and "PDict d \<in> set eps"
    and "\<not> dict_has d ''name'' \<or> \<not> dict_has d ''address'' \<or> \<not> dict_has d ''connection_type''"
  shows "check_endpoints eps =
           Inl (Fail_json ''An external endpoint must have at least a name and an address definition.'')
       \<or> check_endpoints eps =
           Inl (Fail_json ''You must provide the connection_type parameter when creating an external endpoint'')"
  using assms
proof (induction eps)
  case Nil
  then show ?case by simp
next
  case (Cons ep eps)
  from Cons.prems(1) obtain d' where ep: "ep = PDict d'" by auto
  show ?case
  proof (cases "dict_has d' ''name'' \<and> dict_has d' ''address'' \<and> dict_has d' ''connection_type''")
    case False
    with ep show ?thesis by auto
  next
    case True
    with ep Cons.prems have "PDict d \<in> set eps" by auto
    with Cons.IH Cons.prems have "check_endpoints eps =
           Inl (Fail_json ''An external endpoint must have at least a name and an address definition.'')
       \<or> check_endpoints eps =
           Inl (Fail_json ''You must provide the connection_type parameter when creating an external endpoint'')"
      by auto
    with ep True show ?thesis by auto
  qed
qed

lemma resolve_external_gateway_invalid:
  assumes "(\<exists>k \<in> {''name'', ''preshared_key'', ''external_endpoint''}. \<not> dict_has gw k)
     \<or> (\<exists>eps d. dict_get gw ''external_endpoint'' = PList eps \<and>
           (\<forall>ep \<in> set eps. \<exists>d'. ep = PDict d') \<and> PDict d \<in> set eps \<and>
           (\<exists>k \<in> {''name'', ''address'', ''connection_type''}. \<not> dict_has d k))"
  shows "\<exists>msg. resolve_external_gateway gw = raise (Fail_json msg) \<and>
           ((\<exists>k \<in> {''name'', ''preshared_key'', ''external_endpoint''}.
                msg = ''Missing required field for the external endpoint configuration: '' @ k)
            \<or> msg = ''An external endpoint must have at least a name and an address definition.''
            \<or> msg = ''You must provide the connection_type parameter when creating an external endpoint'')"
proof (cases "\<exists>k \<in> {''name'', ''preshared_key'', ''external_endpoint''}. \<not> dict_has gw k")
  case True
  then have "\<exists>k \<in> set [''name'', ''preshared_key'', ''external_endpoint'']. \<not> dict_has gw k"
    by simp
  from first_missing_Some [OF this] obtain k where
    k: "k \<in> {''name'', ''preshared_key'', ''external_endpoint''}"
    "first_missing gw [''name'', ''preshared_key'', ''external_endpoint''] = Some k"
    by auto
  then have "resolve_external_gateway gw =
      raise (Fail_json (''Missing required field for the external endpoint configuration: '' @ k))"
    by (simp add: resolve_external_gateway_def)
  with k(1) show ?thesis by blast
next
  case False
  then have fm: "first_missing gw [''name'', ''preshared_key'', ''external_endpoint''] = None"
    by simp
  from False assms obtain eps d where eps: "dict_get gw ''external_endpoint'' = PList eps"
    "\<forall>ep \<in> set eps. \<exists>d'. ep = PDict d'" "PDict d \<in> set eps"
    and d: "\<not> dict_has d ''name'' \<or> \<not> dict_has d ''address'' \<or> \<not> dict_has d ''connection_type''"
    by auto
  from check_endpoints_invalid [OF eps(2,3) d] fm eps(1)
  show ?thesis
    by (auto simp: resolve_external_gateway_def bnd_def lift_def raise_def)
qed

text \<open>
  Claim C6, as amended. Outside the disable short circuit, a \<open>remote_gw\<close> of type
  \<open>external_gateway\<close> that lacks \<open>name\<close>, \<open>preshared_key\<close> or
  \<open>external_endpoint\<close>, or whose external endpoints are dictionaries one of which
  lacks \<open>name\<close>, \<open>address\<close> or \<open>connection_type\<close>, fails the module with a message
  and without any write to the server; when the local gateway resolves, the message is
  the one of the failed check.
\<close>

theorem invalid_external_gateway_fails_before_writes:
  assumes "vpn_state p = Present"
    and "\<not> short_circuit_disable p (route_vpns w (vpn_name p))"
    and "dict_get (remote_gw p) ''type'' = PStr ''external_gateway''"
    and "(\<exists>k \<in> {''name'', ''preshared_key'', ''external_endpoint''}. \<not> dict_has (remote_gw p) k)
     \<or> (\<exists>eps d. dict_get (remote_gw p) ''external_endpoint'' = PList eps \<and>
           (\<forall>ep \<in> set eps. \<exists>d'. ep = PDict d') \<and> PDict d \<in> set eps \<and>
           (\<exists>k \<in> {''name'', ''address'', ''connection_type''}. \<not> dict_has d k))"
  shows "\<exists>w' msg evs.
           ForcepointRouteVPN_exec_module p w = (w', Inl (Fail_json msg)) \<and>
           w' = w\<lparr>call_log := call_log w @ evs\<rparr> \<and> (\<forall>c \<in> set evs. \<not> is_mutating c) \<and>
           (\<forall>w1 l. resolve_local p (w\<lparr>call_log := call_log w @ [RouteVPN_fetch (vpn_name p)]\<rparr>) = (w1, Inr l) \<longrightarrow>
              w' = w1 \<and>
              ((\<exists>k \<in> {''name'', ''preshared_key'', ''external_endpoint''}.
                   msg = ''Missing required field for the external endpoint configuration: '' @ k)
               \<or> msg = ''An external endpoint must have at least a name and an address definition.''
               \<or> msg = ''You must provide the connection_type parameter when creating an external endpoint''))"
proof -
  let ?w0 = "w\<lparr>call_log := call_log w @ [RouteVPN_fetch (vpn_name p)]\<rparr>"
  have run: "ForcepointRouteVPN_exec_module p w =
     bnd (resolve_gateways p) (\<lambda>res. try_smc (apply_present p (route_vpns w (vpn_name p)) res)) ?w0"
    by (rule exec_module_present [OF assms(1,2)])
  from resolve_external_gateway_invalid [OF assms(4)] obtain msg where
    ext: "resolve_external_gateway (remote_gw p) = raise (Fail_json msg)"
    and msg: "(\<exists>k \<in> {''name'', ''preshared_key'', ''external_endpoint''}.
                   msg = ''Missing required field for the external endpoint configuration: '' @ k)
               \<or> msg = ''An external endpoint must have at least a name and an address definition.''
               \<or> msg = ''You must provide the connection_type parameter when creating an external endpoint''"
    by blast
  from assms(3) ext have remote: "resolve_remote p = raise (Fail_json msg)"
    by (simp add: resolve_remote_def is_external_def)
  obtain w1 r1 where loc: "resolve_local p ?w0 = (w1, r1)"
    by (cases "resolve_local p ?w0")
  from reads_onlyD [OF reads_only_resolve_local loc] obtain evs where
    w1: "w1 = w\<lparr>call_log := call_log w @ (RouteVPN_fetch (vpn_name p) # evs)\<rparr>"
    and evs: "\<forall>c \<in> set (RouteVPN_fetch (vpn_name p) # evs). \<not> is_mutating c"
    by auto
  show ?thesis
  proof (cases r1)
    case (Inl f)
    from fails_with_messageD [OF fails_resolve_local loc [unfolded Inl]] obtain m where
      f: "f = Fail_json m" by blast
    from loc Inl f have "ForcepointRouteVPN_exec_module p w = (w1, Inl (Fail_json m))"
      by (simp add: run resolve_gateways_def bnd_def)
    with w1 evs loc Inl show ?thesis
      by (intro exI [of _ w1] exI [of _ m] exI [of _ "RouteVPN_fetch (vpn_name p) # evs"]) simp
  next
    case (Inr l)
    with loc remote have "ForcepointRouteVPN_exec_module p w = (w1, Inl (Fail_json msg))"
      by (simp add: run resolve_gateways_def bnd_def raise_def split: prod.splits)
    with w1 evs loc Inr msg show ?thesis
      by (intro exI [of _ w1] exI [of _ msg] exI [of _ "RouteVPN_fetch (vpn_name p) # evs"]) simp
  qed
qed

theorem short_circuit_skips_validation_counterexample:
  "vpn_state (external_gateway_no_key\<lparr>vpn_enabled := Some False\<rparr>) = Present
   \<and> dict_get (remote_gw (external_gateway_no_key\<lparr>vpn_enabled := Some False\<rparr>)) ''type'' =
       PStr ''external_gateway''
   \<and> \<not> dict_has (remote_gw (external_gateway_no_key\<lparr>vpn_enabled := Some False\<rparr>)) ''preshared_key''
   \<and> snd (ForcepointRouteVPN_exec_module (external_gateway_no_key\<lparr>vpn_enabled := Some False\<rparr>)
            smc_with_vpn) = Inr \<lparr>changed = True, state = Empty_list\<rparr>"
  by (simp add: vpn_defs run_defs example_defs)

theorem invalid_external_gateway_fails_before_writes_witness:
  "(\<exists>w' msg evs.
       ForcepointRouteVPN_exec_module external_gateway_no_key smc_no_vpn = (w', Inl (Fail_json msg)) \<and>
       w' = smc_no_vpn\<lparr>call_log := call_log smc_no_vpn @ evs\<rparr> \<and> (\<forall>c \<in> set evs. \<not> is_mutating c))
   \<and> snd (ForcepointRouteVPN_exec_module external_gateway_no_key smc_no_vpn) =
       Inl (Fail_json ''Missing required field for the external endpoint configuration: preshared_key'')"
proof -
  have a: "vpn_state external_gateway_no_key = Present"
    "\<not> short_circuit_disable external_gateway_no_key
         (route_vpns smc_no_vpn (vpn_name external_gateway_no_key))"
    "dict_get (remote_gw external_gateway_no_key) ''type'' = PStr ''external_gateway''"
    by (simp_all add: example_defs short_circuit_disable_def dict_get_def)
  have b: "(\<exists>k \<in> {''name'', ''preshared_key'', ''external_endpoint''}.
               \<not> dict_has (remote_gw external_gateway_no_key) k)
     \<or> (\<exists>eps d. dict_get (remote_gw external_gateway_no_key) ''external_endpoint'' = PList eps \<and>
           (\<forall>ep \<in> set eps. \<exists>d'. ep = PDict d') \<and> PDict d \<in> set eps \<and>
           (\<exists>k \<in> {''name'', ''address'', ''connection_type''}. \<not> dict_has d k))"
    by (simp add: example_defs dict_has_def)
  from invalid_external_gateway_fails_before_writes [OF a b]
  have "\<exists>w' msg evs.
       ForcepointRouteVPN_exec_module external_gateway_no_key smc_no_vpn = (w', Inl (Fail_json msg)) \<and>
       w' = smc_no_vpn\<lparr>call_log := call_log smc_no_vpn @ evs\<rparr> \<and> (\<forall>c \<in> set evs. \<not> is_mutating c)"
    by blast
  moreover have "snd (ForcepointRouteVPN_exec_module external_gateway_no_key smc_no_vpn) =
       Inl (Fail_json ''Missing required field for the external endpoint configuration: preshared_key'')"
    by (simp add: vpn_defs run_defs example_defs)
  ultimately show ?thesis by blast
qed

subsection \<open>Route VPN: check mode\<close>

lemma try_smc_ret: "try_smc (ret x) = ret x"
  by (simp add: try_smc_def ret_def)

text \<open>
  Property X1 (the part of claim C1 that the code keeps). In check mode with
  \<open>state: present\<close>, outside the disable short circuit, the run only reads: the server
  is left as it was, the calls made are lookups, and a run that returns gives the
  initial result with \<open>changed = False\<close>. Validation failures are still raised.
\<close>

theorem check_mode_outside_short_circuit_only_reads:
  assumes "vpn_state p = Present" and "check_mode p"
    and "\<not> short_circuit_disable p (route_vpns w (vpn_name p))"
  shows "(\<exists>evs. fst (ForcepointRouteVPN_exec_module p w) = w\<lparr>call_log := call_log w @ evs\<rparr> \<and>
               (\<forall>c \<in> set evs. \<not> is_mutating c))
       \<and> (\<forall>r. snd (ForcepointRouteVPN_exec_module p w) = Inr r \<longrightarrow>
               r = \<lparr>changed = False, state = Empty_list\<rparr>)"
proof -
  let ?w0 = "w\<lparr>call_log := call_log w @ [RouteVPN_fetch (vpn_name p)]\<rparr>"
  let ?m = "bnd (resolve_gateways p) (\<lambda>res. ret \<lparr>changed = False, state = Empty_list\<rparr>)"
  from assms(2) have run: "ForcepointRouteVPN_exec_module p w = ?m ?w0"
    by (simp add: exec_module_present [OF assms(1,3)] apply_present_def try_smc_ret)
  have "reads_only ?m"
    by (intro reads_intros reads_only_resolve_gateways)
  from reads_onlyD [OF this, of ?w0 "fst (?m ?w0)" "snd (?m ?w0)"] obtain evs where
    "fst (?m ?w0) = ?w0\<lparr>call_log := call_log ?w0 @ evs\<rparr>" "\<forall>c \<in> set evs. \<not> is_mutating c"
    by auto
  then have "fst (ForcepointRouteVPN_exec_module p w) =
      w\<lparr>call_log := call_log w @ (RouteVPN_fetch (vpn_name p) # evs)\<rparr>"
    "\<forall>c \<in> set (RouteVPN_fetch (vpn_name p) # evs). \<not> is_mutating c"
    by (simp_all add: run)
  then have one: "\<exists>evs. fst (ForcepointRouteVPN_exec_module p w) = w\<lparr>call_log := call_log w @ evs\<rparr> \<and>
               (\<forall>c \<in> set evs. \<not> is_mutating c)"
    by blast
  have two: "r = \<lparr>changed = False, state = Empty_list\<rparr>"
    if "snd (ForcepointRouteVPN_exec_module p w) = Inr r" for r
    using that unfolding run
    by (auto simp: bnd_def ret_def split: prod.splits sum.splits)
  from one two show ?thesis by blast
qed

theorem check_mode_outside_short_circuit_only_reads_witness:
  "snd (ForcepointRouteVPN_exec_module (managed_gateways\<lparr>check_mode := True\<rparr>) smc_no_vpn) =
     Inr \<lparr>changed = False, state = Empty_list\<rparr>
   \<and> (\<exists>evs. fst (ForcepointRouteVPN_exec_module (managed_gateways\<lparr>check_mode := True\<rparr>) smc_no_vpn) =
          smc_no_vpn\<lparr>call_log := call_log smc_no_vpn @ evs\<rparr> \<and> (\<forall>c \<in> set evs. \<not> is_mutating c))"
proof -
  have a: "vpn_state (managed_gateways\<lparr>check_mode := True\<rparr>) = Present"
    "check_mode (managed_gateways\<lparr>check_mode := True\<rparr>)"
    "\<not> short_circuit_disable (managed_gateways\<lparr>check_mode := True\<rparr>)
         (route_vpns smc_no_vpn (vpn_name (managed_gateways\<lparr>check_mode := True\<rparr>)))"
    by (simp_all add: example_defs short_circuit_disable_def)
  have "snd (ForcepointRouteVPN_exec_module (managed_gateways\<lparr>check_mode := True\<rparr>) smc_no_vpn) =
     Inr \<lparr>changed = False, state = Empty_list\<rparr>"
    by (simp add: vpn_defs run_defs example_defs)
  with check_mode_outside_short_circuit_only_reads [OF a] show ?thesis
    by blast
qed

end
